theory Spec2Isabelle
  imports Main
begin

section \<open>The object model that showattr.py inspects\<close>

text \<open>
  The program \<^verbatim>\<open>showattr.py\<close> predicts how Python 2 resolves an attribute access on a
  new-style object. It reads a small part of each object it is given; the records below
  hold exactly that part. Objects are told apart by an identity (Python's \<^verbatim>\<open>id\<close>).
\<close>

type_synonym ident = nat

text \<open>
  An exception raised by user code: \<^verbatim>\<open>AttributeError\<close> (or a subclass of it, which the
  handler \<^verbatim>\<open>except AttributeError\<close> catches as well), or any other exception.
\<close>

datatype exn = AttributeError | OtherError string

datatype outcome = Returns | Raises exn

text \<open>
  A value stored in a class or instance dictionary: Python's \<^verbatim>\<open>None\<close>, or an object with
  an identity, the behaviour of its \<^verbatim>\<open>__get__\<close> when it has one (called with an instance,
  which may be \<^verbatim>\<open>None\<close>, and an owner), and whether it has \<^verbatim>\<open>__set__\<close> and
  \<^verbatim>\<open>__delete__\<close>.
\<close>

datatype pyobj =
    PyNone
  | PyObj ident "(ident option \<Rightarrow> ident \<Rightarrow> outcome) option" bool bool

text \<open>A class of a linearization, as the walks read it: \<^verbatim>\<open>c.__name__\<close> and \<^verbatim>\<open>c.__dict__\<close>.\<close>

record klass =
  cls_name :: string
  cls_dict :: "string \<rightharpoonup> pyobj"

text \<open>
  What \<^verbatim>\<open>getattr(cls, '__getattribute__', None)\<close> and its three siblings return when
  it is not \<^verbatim>\<open>None\<close>: whether the callable is a \<^verbatim>\<open>types.MethodType\<close>, its
  \<^verbatim>\<open>__name__\<close> (functions and methods have one), and what calling it on
  \<^verbatim>\<open>(obj, name)\<close> does. The program uses the value of such a call only when Python's own
  attribute lookup runs the hook for \<^verbatim>\<open>__name__\<close> or \<^verbatim>\<open>__dict__\<close>: the last two fields
  give the value returned then, taken to be \<^verbatim>\<open>None\<close> or a string for \<^verbatim>\<open>__name__\<close> and
  \<^verbatim>\<open>None\<close> or a dictionary for \<^verbatim>\<open>__dict__\<close>.
\<close>

record hook =
  is_method :: bool
  hook_name :: string
  invoke :: "ident \<Rightarrow> string \<Rightarrow> outcome"
  reply_name :: "ident \<Rightarrow> string option"
  reply_dict :: "ident \<Rightarrow> (string \<rightharpoonup> pyobj) option"

datatype typetag = InstanceType | ClassType | NewStyleType

text \<open>The type of the target (\<^verbatim>\<open>type(obj)\<close>): the class of an instance, the metaclass of a class.\<close>

record pytype =
  type_id :: ident
  type_tag :: typetag
  type_name :: string
  type_mro :: "klass list"
  attr_getattribute :: "hook option"
  attr_getattr :: "hook option"
  attr_setattr :: "hook option"
  attr_delattr :: "hook option"

text \<open>
  The target of a query: its identity, its type, what \<^verbatim>\<open>object.__getattribute__\<close> finds
  for \<^verbatim>\<open>__dict__\<close> and for \<^verbatim>\<open>__name__\<close> on it (\<open>None\<close> when it raises
  \<^verbatim>\<open>AttributeError\<close>; the default lookup of these two names is taken to call no user
  code), whether \<^verbatim>\<open>inspect.isclass(obj)\<close> holds, and \<^verbatim>\<open>obj.__mro__\<close> (read for classes
  only).
\<close>

record target =
  obj_id :: ident
  obj_type :: pytype
  obj_dict :: "(string \<rightharpoonup> pyobj) option"
  obj_name :: "string option"
  obj_isclass :: bool
  obj_mro :: "klass list"

text \<open>A call of user code made while probing, with what it did.\<close>

datatype event =
    InvokeHook string ident string outcome
  | InvokeGet ident "ident option" ident outcome

fun event_outcome :: "event \<Rightarrow> outcome" where
  "event_outcome (InvokeHook h i n r) = r"
| "event_outcome (InvokeGet d a b r) = r"

type_synonym info = "string \<times> string"

text \<open>A computation that may call user code: the calls made, and the exception or the value.\<close>

type_synonym 'a traced = "event list \<times> (exn + 'a)"

section \<open>Capability predicates\<close>

text \<open>\<^verbatim>\<open>hasattr(attr, '__get__')\<close>; \<^verbatim>\<open>hasattr\<close> never raises.\<close>

fun isgetdescriptor :: "pyobj \<Rightarrow> bool" where
  "isgetdescriptor PyNone = False"
| "isgetdescriptor (PyObj i g s d) = (case g of None \<Rightarrow> False | Some f \<Rightarrow> True)"

text \<open>\<^verbatim>\<open>hasattr(attr, '__set__') or hasattr(attr, '__delete__')\<close>.\<close>

fun issetdescriptor :: "pyobj \<Rightarrow> bool" where
  "issetdescriptor PyNone = False"
| "issetdescriptor (PyObj i g s d) = (s \<or> d)"

definition isnondatadescriptor :: "pyobj \<Rightarrow> bool" where
  "isnondatadescriptor a = (isgetdescriptor a \<and> \<not> issetdescriptor a)"

definition isdatadescriptor :: "pyobj \<Rightarrow> bool" where
  "isdatadescriptor a = (isgetdescriptor a \<and> issetdescriptor a)"

fun isoverridemethod :: "hook option \<Rightarrow> bool" where
  "isoverridemethod None = False"
| "isoverridemethod (Some h) = is_method h"

section \<open>Helpers of the resolution engine\<close>

text \<open>\<^verbatim>\<open>d.get(name, None)\<close>: a missing key and a key bound to \<^verbatim>\<open>None\<close> both give \<^verbatim>\<open>None\<close>.\<close>

definition dict_get :: "(string \<rightharpoonup> pyobj) \<Rightarrow> string \<Rightarrow> pyobj" where
  "dict_get d nm = (case d nm of None \<Rightarrow> PyNone | Some v \<Rightarrow> v)"

text \<open>Sequencing: the first exception ends the computation, the calls made add up.\<close>

fun bind_traced :: "'a traced \<Rightarrow> ('a \<Rightarrow> 'b traced) \<Rightarrow> 'b traced" where
  "bind_traced (t, Inl e) f = (t, Inl e)"
| "bind_traced (t, Inr v) f = (t @ fst (f v), snd (f v))"

subsection \<open>Python's attribute lookup on the target\<close>

text \<open>
  \<^verbatim>\<open>instancename\<close> and the tests of the instance dictionary do not read a field: they
  look an attribute up on the target, which runs the hooks of its type. The hooks Python
  runs are taken to be the ones \<^verbatim>\<open>getattr(type(obj), '__getattribute__', None)\<close> and
  \<^verbatim>\<open>getattr(type(obj), '__getattr__', None)\<close> find, and a \<^verbatim>\<open>__getattribute__\<close> that is
  not a \<^verbatim>\<open>types.MethodType\<close> to be the default one. A call of a hook on
  \<^verbatim>\<open>(obj, name)\<close> that returns the value \<open>v\<close>:
\<close>

definition call_hook :: "hook \<Rightarrow> ident \<Rightarrow> string \<Rightarrow> 'a \<Rightarrow> 'a traced" where
  "call_hook h i n v =
     (case invoke h i n of
        Returns \<Rightarrow> ([InvokeHook (hook_name h) i n Returns], Inr v)
      | Raises e \<Rightarrow> ([InvokeHook (hook_name h) i n (Raises e)], Inl e))"

text \<open>\<^verbatim>\<open>object.__getattribute__\<close>, the default: the value found, or \<^verbatim>\<open>AttributeError\<close>.\<close>

fun object_getattribute :: "'a option \<Rightarrow> 'a option traced" where
  "object_getattribute None = ([], Inl AttributeError)"
| "object_getattribute (Some v) = ([], Inr (Some v))"

text \<open>
  When \<^verbatim>\<open>__getattribute__\<close> raises \<^verbatim>\<open>AttributeError\<close> and the type has a
  \<^verbatim>\<open>__getattr__\<close>, Python calls it; every other outcome stands.
\<close>

fun or_getattr ::
  "'a option traced \<Rightarrow> hook option \<Rightarrow> ident \<Rightarrow> string \<Rightarrow> (hook \<Rightarrow> 'a option) \<Rightarrow> 'a option traced"
where
  "or_getattr (t, Inl AttributeError) None i n reply = (t, Inl AttributeError)"
| "or_getattr (t, Inl AttributeError) (Some g) i n reply =
     (t @ fst (call_hook g i n (reply g)), snd (call_hook g i n (reply g)))"
| "or_getattr (t, Inl (OtherError m)) g i n reply = (t, Inl (OtherError m))"
| "or_getattr (t, Inr v) g i n reply = (t, Inr v)"

text \<open>
  The expression \<^verbatim>\<open>obj.name\<close>: a user-defined \<^verbatim>\<open>__getattribute__\<close> of the type is
  called in place of the default, then \<^verbatim>\<open>__getattr__\<close> as above. The argument
  \<open>found\<close> is what the default finds, \<open>reply\<close> gives the value a hook returns.
\<close>

definition attribute_lookup ::
  "target \<Rightarrow> string \<Rightarrow> 'a option \<Rightarrow> (hook \<Rightarrow> 'a option) \<Rightarrow> 'a option traced" where
  "attribute_lookup obj n found reply =
     (let cls = obj_type obj in
      or_getattr
        (case attr_getattribute cls of
           None \<Rightarrow> object_getattribute found
         | Some h \<Rightarrow>
             if isoverridemethod (Some h) then call_hook h (obj_id obj) n (reply h)
             else object_getattribute found)
        (attr_getattr cls) (obj_id obj) n reply)"

text \<open>\<^verbatim>\<open>getattr(obj, name, None)\<close>: \<^verbatim>\<open>AttributeError\<close> becomes the default \<^verbatim>\<open>None\<close>.\<close>

fun default_None :: "'a option traced \<Rightarrow> 'a option traced" where
  "default_None (t, Inl AttributeError) = (t, Inr None)"
| "default_None (t, Inl (OtherError m)) = (t, Inl (OtherError m))"
| "default_None (t, Inr v) = (t, Inr v)"

definition builtin_getattr ::
  "target \<Rightarrow> string \<Rightarrow> 'a option \<Rightarrow> (hook \<Rightarrow> 'a option) \<Rightarrow> 'a option traced" where
  "builtin_getattr obj n found reply = default_None (attribute_lookup obj n found reply)"

text \<open>\<^verbatim>\<open>getattr(inst, '__name__', None) or 'instance'\<close>: the empty string is falsy.\<close>

fun or_instance :: "string option \<Rightarrow> string" where
  "or_instance None = ''instance''"
| "or_instance (Some s) = (if s = [] then ''instance'' else s)"

definition instancename :: "target \<Rightarrow> string traced" where
  "instancename inst =
     bind_traced
       (builtin_getattr inst ''__name__'' (obj_name inst) (\<lambda>h. reply_name h (obj_id inst)))
       (\<lambda>v. ([], Inr (or_instance v)))"

text \<open>
  \<^verbatim>\<open>getattr(inst, '__dict__', None) and name in inst.__dict__\<close>: \<^verbatim>\<open>None\<close> and an empty
  dictionary are falsy; otherwise \<^verbatim>\<open>inst.__dict__\<close> is looked up once more, without a
  default, and \<^verbatim>\<open>name in None\<close> would be a \<^verbatim>\<open>TypeError\<close>.
\<close>

definition in_own_dict :: "target \<Rightarrow> string \<Rightarrow> bool traced" where
  "in_own_dict inst nm =
     bind_traced
       (builtin_getattr inst ''__dict__'' (obj_dict inst) (\<lambda>h. reply_dict h (obj_id inst)))
       (\<lambda>v. case v of
               None \<Rightarrow> ([], Inr False)
             | Some d \<Rightarrow>
                 if dom d = {} then ([], Inr False)
                 else
                   bind_traced
                     (attribute_lookup inst ''__dict__'' (obj_dict inst)
                        (\<lambda>h. reply_dict h (obj_id inst)))
                     (\<lambda>w. case w of
                             None \<Rightarrow> ([], Inl (OtherError ''TypeError''))
                           | Some d' \<Rightarrow> ([], Inr (nm \<in> dom d'))))"

text \<open>\<^verbatim>\<open>return ('attribute', '%s.__dict__' % instancename(inst))\<close>.\<close>

definition own_location :: "target \<Rightarrow> info traced" where
  "own_location inst =
     bind_traced (instancename inst) (\<lambda>s. ([], Inr (''attribute'', s @ ''.__dict__'')))"

text \<open>
  Step 2 of the two read algorithms: the loop over \<^verbatim>\<open>__mro__\<close> that stops at the first
  class whose dictionary gives a value that is not \<^verbatim>\<open>None\<close>. The loop leaves
  \<^verbatim>\<open>attr\<close> and \<^verbatim>\<open>location\<close> both \<^verbatim>\<open>None\<close> (the result \<open>None\<close> here) or both set.
\<close>

fun mro_lookup :: "klass list \<Rightarrow> string \<Rightarrow> (pyobj \<times> string) option" where
  "mro_lookup [] nm = None"
| "mro_lookup (c # cs) nm =
     (case dict_get (cls_dict c) nm of
        PyNone \<Rightarrow> mro_lookup cs nm
      | PyObj i g s d \<Rightarrow> Some (PyObj i g s d, cls_name c @ ''.__dict__''))"

text \<open>
  \<^verbatim>\<open>attr.__get__(a, b)\<close>: the attribute access itself raises \<^verbatim>\<open>AttributeError\<close> when the
  object has no \<^verbatim>\<open>__get__\<close>; otherwise the hook is called.
\<close>

fun call_get :: "pyobj \<Rightarrow> ident option \<Rightarrow> ident \<Rightarrow> event list \<times> outcome" where
  "call_get PyNone a b = ([], Raises AttributeError)"
| "call_get (PyObj i None s d) a b = ([], Raises AttributeError)"
| "call_get (PyObj i (Some f) s d) a b = ([InvokeGet i a b (f a b)], f a b)"

text \<open>A statement executed only for the exception it may raise, followed by a \<^verbatim>\<open>return\<close>.\<close>

fun then_return :: "event list \<times> outcome \<Rightarrow> info \<Rightarrow> info traced" where
  "then_return (t, Returns) r = (t, Inr r)"
| "then_return (t, Raises e) r = (t, Inl e)"

text \<open>Steps 7 and 8 of the read algorithms, the body of the handler.\<close>

definition fallback :: "pytype \<Rightarrow> info" where
  "fallback cls =
     (case attr_getattr cls of
        Some h \<Rightarrow> (''attribute'', type_name cls @ ''.'' @ hook_name h)
      | None \<Rightarrow> (''attribute'', ''Not found''))"

text \<open>\<^verbatim>\<open>try: ... except AttributeError: ...\<close> around a body; other exceptions pass through.\<close>

fun except_AttributeError :: "info traced \<Rightarrow> pytype \<Rightarrow> info traced" where
  "except_AttributeError (t, Inl AttributeError) cls = (t, Inr (fallback cls))"
| "except_AttributeError (t, Inl (OtherError m)) cls = (t, Inl (OtherError m))"
| "except_AttributeError (t, Inr r) cls = (t, Inr r)"

text \<open>Step 1 of the read algorithms, once \<^verbatim>\<open>isoverridemethod\<close> holds.\<close>

definition call_override :: "hook \<Rightarrow> target \<Rightarrow> string \<Rightarrow> info traced" where
  "call_override h obj nm =
     then_return
       ([InvokeHook (hook_name h) (obj_id obj) nm (invoke h (obj_id obj) nm)],
        invoke h (obj_id obj) nm)
       (''attribute'', type_name (obj_type obj) @ ''.'' @ hook_name h)"

section \<open>Reading through an instance\<close>

text \<open>The body of the \<^verbatim>\<open>try\<close> of \<^verbatim>\<open>getattr_via_instance\<close>, after step 1.\<close>

definition getattr_via_instance_steps :: "target \<Rightarrow> string \<Rightarrow> info traced" where
  "getattr_via_instance_steps inst nm =
     (let cls = obj_type inst in
      case mro_lookup (type_mro cls) nm of
        Some (attr, location) \<Rightarrow>
          if isdatadescriptor attr then
            then_return (call_get attr (Some (obj_id inst)) (type_id cls))
              (''data descriptor'', location)
          else
            bind_traced (in_own_dict inst nm)
              (\<lambda>own.
                 if own then own_location inst
                 else if isnondatadescriptor attr then
                   then_return (call_get attr (Some (obj_id inst)) (type_id cls))
                     (''non-data descriptor'', location)
                 else ([], Inr (''attribute'', location)))
      | None \<Rightarrow>
          bind_traced (in_own_dict inst nm)
            (\<lambda>own. if own then own_location inst else ([], Inl AttributeError)))"

definition getattr_via_instance_try :: "target \<Rightarrow> string \<Rightarrow> info traced" where
  "getattr_via_instance_try inst nm =
     (case attr_getattribute (obj_type inst) of
        None \<Rightarrow> getattr_via_instance_steps inst nm
      | Some h \<Rightarrow>
          if isoverridemethod (Some h) then call_override h inst nm
          else getattr_via_instance_steps inst nm)"

definition getattr_via_instance :: "target \<Rightarrow> string \<Rightarrow> info traced" where
  "getattr_via_instance inst nm =
     except_AttributeError (getattr_via_instance_try inst nm) (obj_type inst)"

section \<open>Reading through a class\<close>

text \<open>
  Step 4 of \<^verbatim>\<open>getattr_via_class\<close>: the loop over \<^verbatim>\<open>cls.__mro__\<close>, which returns from
  the function at the first value that is not \<^verbatim>\<open>None\<close>; \<open>None\<close> when the loop ends.
\<close>

fun class_walk :: "klass list \<Rightarrow> string \<Rightarrow> ident \<Rightarrow> info traced option" where
  "class_walk [] nm cid = None"
| "class_walk (c # cs) nm cid =
     (case dict_get (cls_dict c) nm of
        PyNone \<Rightarrow> class_walk cs nm cid
      | PyObj i g s d \<Rightarrow>
          Some (if isgetdescriptor (PyObj i g s d) then
                  then_return (call_get (PyObj i g s d) None cid)
                    (''get descriptor'', cls_name c @ ''.__dict__'')
                else ([], Inr (''attribute'', cls_name c @ ''.__dict__''))))"

definition getattr_via_class_steps :: "target \<Rightarrow> string \<Rightarrow> info traced" where
  "getattr_via_class_steps cls nm =
     (let mcls = obj_type cls in
      case mro_lookup (type_mro mcls) nm of
        Some (attr, location) \<Rightarrow>
          if isdatadescriptor attr then
            then_return (call_get attr (Some (obj_id cls)) (type_id mcls))
              (''data descriptor'', location)
          else
            (case class_walk (obj_mro cls) nm (obj_id cls) of
               Some r \<Rightarrow> r
             | None \<Rightarrow>
                 if isnondatadescriptor attr then
                   then_return (call_get attr (Some (obj_id cls)) (type_id mcls))
                     (''non-data descriptor'', location)
                 else ([], Inr (''attribute'', location)))
      | None \<Rightarrow>
          (case class_walk (obj_mro cls) nm (obj_id cls) of
             Some r \<Rightarrow> r
           | None \<Rightarrow> ([], Inl AttributeError)))"

definition getattr_via_class_try :: "target \<Rightarrow> string \<Rightarrow> info traced" where
  "getattr_via_class_try cls nm =
     (case attr_getattribute (obj_type cls) of
        None \<Rightarrow> getattr_via_class_steps cls nm
      | Some h \<Rightarrow>
          if isoverridemethod (Some h) then call_override h cls nm
          else getattr_via_class_steps cls nm)"

definition getattr_via_class :: "target \<Rightarrow> string \<Rightarrow> info traced" where
  "getattr_via_class cls nm =
     except_AttributeError (getattr_via_class_try cls nm) (obj_type cls)"

section \<open>Writing and deleting\<close>

text \<open>
  Step 2 of \<^verbatim>\<open>setattr_via_instance\<close> and \<^verbatim>\<open>delattr_via_instance\<close>: the loop returns from
  the function when the first value that is not \<^verbatim>\<open>None\<close> is a set descriptor, and
  breaks (the result \<open>None\<close>) when it is not; it also ends when no class has the name.
\<close>

fun set_walk :: "klass list \<Rightarrow> string \<Rightarrow> info option" where
  "set_walk [] nm = None"
| "set_walk (c # cs) nm =
     (case dict_get (cls_dict c) nm of
        PyNone \<Rightarrow> set_walk cs nm
      | PyObj i g s d \<Rightarrow>
          if issetdescriptor (PyObj i g s d)
          then Some (''set descriptor'', cls_name c @ ''.__dict__'')
          else None)"

text \<open>Step 1 of both: the hook is looked up, never called.\<close>

definition override_info :: "pytype \<Rightarrow> hook option \<Rightarrow> info option" where
  "override_info cls f =
     (case f of
        None \<Rightarrow> None
      | Some h \<Rightarrow>
          if isoverridemethod (Some h)
          then Some (''attribute'', type_name cls @ ''.'' @ hook_name h)
          else None)"

text \<open>
  Neither function has a \<^verbatim>\<open>try\<close>: an exception from the lookups of step 3 reaches
  the caller.
\<close>

definition setattr_via_instance :: "target \<Rightarrow> string \<Rightarrow> info traced" where
  "setattr_via_instance inst nm =
     (let cls = obj_type inst in
      case override_info cls (attr_setattr cls) of
        Some r \<Rightarrow> ([], Inr r)
      | None \<Rightarrow>
          (case set_walk (type_mro cls) nm of
             Some r \<Rightarrow> ([], Inr r)
           | None \<Rightarrow> own_location inst))"

definition delattr_via_instance :: "target \<Rightarrow> string \<Rightarrow> info traced" where
  "delattr_via_instance inst nm =
     (let cls = obj_type inst in
      case override_info cls (attr_delattr cls) of
        Some r \<Rightarrow> ([], Inr r)
      | None \<Rightarrow>
          (case set_walk (type_mro cls) nm of
             Some r \<Rightarrow> ([], Inr r)
           | None \<Rightarrow>
               bind_traced (in_own_dict inst nm)
                 (\<lambda>own. if own then own_location inst
                         else ([], Inr (''attribute'', ''Not found'')))))"

definition setattr_via_class :: "target \<Rightarrow> string \<Rightarrow> info traced" where
  "setattr_via_class cls nm = setattr_via_instance cls nm"

definition delattr_via_class :: "target \<Rightarrow> string \<Rightarrow> info traced" where
  "delattr_via_class cls nm = delattr_via_instance cls nm"

section \<open>The entry point\<close>

text \<open>
  An argument passed as \<^verbatim>\<open>name\<close> or \<^verbatim>\<open>method\<close>: a string or some other Python value.
\<close>

datatype pyarg = PyStr string | PyOther

text \<open>The three assertions of \<^verbatim>\<open>showattr\<close>, by the argument each one guards.\<close>

datatype assertion = ObjNotNewStyle | NameNotString | MethodNotKnown

datatype failure = AssertionError assertion | Raised exn

definition isnewstyle :: "target \<Rightarrow> bool" where
  "isnewstyle obj =
     (type_tag (obj_type obj) \<noteq> InstanceType \<and> type_tag (obj_type obj) \<noteq> ClassType)"

fun propagate :: "info traced \<Rightarrow> event list \<times> (failure + info)" where
  "propagate (t, Inl e) = (t, Inl (Raised e))"
| "propagate (t, Inr r) = (t, Inr r)"

text \<open>The dispatch table of \<^verbatim>\<open>showattr\<close>, for a method that passed the assertion.\<close>

definition route :: "bool \<Rightarrow> string \<Rightarrow> target \<Rightarrow> string \<Rightarrow> info traced" where
  "route isclass m obj nm =
     (if isclass then
        (if m = ''get'' then getattr_via_class obj nm
         else if m = ''set'' then setattr_via_class obj nm
         else delattr_via_class obj nm)
      else
        (if m = ''get'' then getattr_via_instance obj nm
         else if m = ''set'' then setattr_via_instance obj nm
         else delattr_via_instance obj nm))"

text \<open>
  \<^verbatim>\<open>showattr\<close> prints the pair it computed; the model returns what is printed, or the
  failure that reaches the caller, with the calls of user code made on the way.
\<close>

definition showattr :: "target \<Rightarrow> pyarg \<Rightarrow> pyarg \<Rightarrow> event list \<times> (failure + info)" where
  "showattr obj nm meth =
     (if \<not> isnewstyle obj then ([], Inl (AssertionError ObjNotNewStyle))
      else
        (case nm of
           PyOther \<Rightarrow> ([], Inl (AssertionError NameNotString))
         | PyStr n \<Rightarrow>
             (case meth of
                PyOther \<Rightarrow> ([], Inl (AssertionError MethodNotKnown))
              | PyStr m \<Rightarrow>
                  if m = ''get'' \<or> m = ''set'' \<or> m = ''del''
                  then propagate (route (obj_isclass obj) m obj n)
                  else ([], Inl (AssertionError MethodNotKnown)))))"

section \<open>Objects used in the examples\<close>

text \<open>
  The dictionaries below list only the names the examples ask about. A slot wrapper is
  what \<^verbatim>\<open>getattr\<close> finds for a hook that no class of the linearization defines in
  Python: \<^verbatim>\<open>object.__getattribute__\<close> and its siblings are not of \<^verbatim>\<open>types.MethodType\<close>.
\<close>

definition slot_wrapper :: "string \<Rightarrow> hook" where
  "slot_wrapper n =
     \<lparr>is_method = False, hook_name = n, invoke = (\<lambda>i a. Returns),
      reply_name = (\<lambda>i. None), reply_dict = (\<lambda>i. None)\<rparr>"

text \<open>A user-defined hook that does as told on every call; when it returns, it returns \<^verbatim>\<open>None\<close>.\<close>

definition user_method :: "string \<Rightarrow> outcome \<Rightarrow> hook" where
  "user_method n r =
     \<lparr>is_method = True, hook_name = n, invoke = (\<lambda>i a. r),
      reply_name = (\<lambda>i. None), reply_dict = (\<lambda>i. None)\<rparr>"

text \<open>A user-defined hook that returns the given string for every name.\<close>

definition naming_method :: "string \<Rightarrow> string \<Rightarrow> hook" where
  "naming_method n s =
     \<lparr>is_method = True, hook_name = n, invoke = (\<lambda>i a. Returns),
      reply_name = (\<lambda>i. Some s), reply_dict = (\<lambda>i. None)\<rparr>"

definition object_klass :: klass where
  "object_klass = \<lparr>cls_name = ''object'', cls_dict = Map.empty\<rparr>"

definition type_klass :: klass where
  "type_klass = \<lparr>cls_name = ''type'', cls_dict = Map.empty\<rparr>"

text \<open>A new-style class that defines none of the four hooks, as the type of its instances.\<close>

definition new_type :: "ident \<Rightarrow> string \<Rightarrow> klass list \<Rightarrow> pytype" where
  "new_type i n m =
     \<lparr>type_id = i, type_tag = NewStyleType, type_name = n, type_mro = m,
      attr_getattribute = Some (slot_wrapper ''__getattribute__''),
      attr_getattr = None,
      attr_setattr = Some (slot_wrapper ''__setattr__''),
      attr_delattr = Some (slot_wrapper ''__delattr__'')\<rparr>"

text \<open>The built-in metaclass \<^verbatim>\<open>type\<close>.\<close>

definition type_type :: pytype where
  "type_type = new_type 0 ''type'' [type_klass, object_klass]"

definition instance_of :: "ident \<Rightarrow> pytype \<Rightarrow> (string \<rightharpoonup> pyobj) \<Rightarrow> target" where
  "instance_of i t d =
     \<lparr>obj_id = i, obj_type = t, obj_dict = Some d, obj_name = None,
      obj_isclass = False, obj_mro = []\<rparr>"

text \<open>
  A class as a target: its own dictionary is the dictionary of the first class of its
  linearization, and its \<^verbatim>\<open>__name__\<close> is its name.
\<close>

definition class_object ::
  "ident \<Rightarrow> string \<Rightarrow> (string \<rightharpoonup> pyobj) \<Rightarrow> klass list \<Rightarrow> pytype \<Rightarrow> target" where
  "class_object i n d bases m =
     \<lparr>obj_id = i, obj_type = m, obj_dict = Some d, obj_name = Some n,
      obj_isclass = True, obj_mro = \<lparr>cls_name = n, cls_dict = d\<rparr> # bases\<rparr>"

text \<open>Values: a plain one, and descriptors whose \<^verbatim>\<open>__get__\<close> does as told.\<close>

definition plain_value :: "ident \<Rightarrow> pyobj" where
  "plain_value i = PyObj i None False False"

definition get_descr :: "ident \<Rightarrow> outcome \<Rightarrow> pyobj" where
  "get_descr i r = PyObj i (Some (\<lambda>a b. r)) False False"

definition data_descr :: "ident \<Rightarrow> outcome \<Rightarrow> pyobj" where
  "data_descr i r = PyObj i (Some (\<lambda>a b. r)) True False"

text \<open>
  The first doctest of \<^verbatim>\<open>test.py\<close>: \<^verbatim>\<open>class A(object): attr = 'hello'\<close> and
  \<^verbatim>\<open>a = A()\<close>.
\<close>

definition klass_A :: klass where
  "klass_A = \<lparr>cls_name = ''A'', cls_dict = [''attr'' \<mapsto> plain_value 1]\<rparr>"

definition type_A :: pytype where
  "type_A = new_type 10 ''A'' [klass_A, object_klass]"

definition inst_a :: target where
  "inst_a = instance_of 11 type_A Map.empty"

text \<open>
  The second doctest: \<^verbatim>\<open>Descr\<close> has \<^verbatim>\<open>__get__\<close> only, the class binds \<^verbatim>\<open>attr\<close> to one
  \<^verbatim>\<open>Descr()\<close> and the constructor stores another in the instance.
\<close>

definition klass_B :: klass where
  "klass_B = \<lparr>cls_name = ''A'', cls_dict = [''attr'' \<mapsto> get_descr 2 Returns]\<rparr>"

definition type_B :: pytype where
  "type_B = new_type 20 ''A'' [klass_B, object_klass]"

definition inst_b :: target where
  "inst_b = instance_of 21 type_B [''attr'' \<mapsto> get_descr 3 Returns]"

definition class_B :: target where
  "class_B = class_object 20 ''A'' [''attr'' \<mapsto> get_descr 2 Returns] [object_klass] type_type"

text \<open>
  A class \<^verbatim>\<open>D\<close> that binds \<^verbatim>\<open>attr\<close> to a data descriptor, and an instance that has
  \<^verbatim>\<open>attr\<close> in its own dictionary as well.
\<close>

definition klass_D :: "outcome \<Rightarrow> klass" where
  "klass_D r = \<lparr>cls_name = ''D'', cls_dict = [''attr'' \<mapsto> data_descr 4 r]\<rparr>"

definition type_D :: "outcome \<Rightarrow> pytype" where
  "type_D r = new_type 30 ''D'' [klass_D r, object_klass]"

definition inst_d :: "outcome \<Rightarrow> target" where
  "inst_d r = instance_of 31 (type_D r) [''attr'' \<mapsto> plain_value 5]"

text \<open>
  The same class with \<^verbatim>\<open>__getattribute__\<close>, \<^verbatim>\<open>__setattr__\<close> and \<^verbatim>\<open>__delattr__\<close>
  defined by the user; the first does as told when called.
\<close>

definition type_D_hooked :: "outcome \<Rightarrow> pytype" where
  "type_D_hooked r =
     (type_D Returns)
       \<lparr>attr_getattribute := Some (user_method ''__getattribute__'' r),
        attr_setattr := Some (user_method ''__setattr__'' Returns),
        attr_delattr := Some (user_method ''__delattr__'' Returns)\<rparr>"

definition inst_d_hooked :: "outcome \<Rightarrow> target" where
  "inst_d_hooked r = instance_of 31 (type_D_hooked r) [''attr'' \<mapsto> plain_value 5]"

text \<open>The class of the second doctest with a user-defined \<^verbatim>\<open>__getattribute__\<close>.\<close>

definition type_B_hooked :: "outcome \<Rightarrow> pytype" where
  "type_B_hooked r = type_B\<lparr>attr_getattribute := Some (user_method ''__getattribute__'' r)\<rparr>"

definition inst_b_hooked :: "outcome \<Rightarrow> target" where
  "inst_b_hooked r = instance_of 21 (type_B_hooked r) [''attr'' \<mapsto> get_descr 3 Returns]"


text \<open>The same class with a user-defined \<^verbatim>\<open>__getattr__\<close> instead.\<close>

definition type_B_fallback :: "hook \<Rightarrow> pytype" where
  "type_B_fallback g = type_B\<lparr>attr_getattr := Some g\<rparr>"

definition inst_k :: "hook \<Rightarrow> target" where
  "inst_k g = instance_of 22 (type_B_fallback g) [''attr'' \<mapsto> get_descr 3 Returns]"

text \<open>
  A metaclass \<^verbatim>\<open>Meta(type)\<close> whose \<^verbatim>\<open>__getattribute__\<close> and \<^verbatim>\<open>__getattr__\<close> are as
  given, and a class \<^verbatim>\<open>C\<close> with an empty body that has it as metaclass.
\<close>

definition klass_Meta :: klass where
  "klass_Meta = \<lparr>cls_name = ''Meta'', cls_dict = Map.empty\<rparr>"

definition meta_type :: "hook option \<Rightarrow> hook option \<Rightarrow> pytype" where
  "meta_type ga g =
     (new_type 40 ''Meta'' [klass_Meta, type_klass, object_klass])
       \<lparr>attr_getattribute := ga, attr_getattr := g\<rparr>"

definition class_C :: "hook option \<Rightarrow> hook option \<Rightarrow> target" where
  "class_C ga g = class_object 41 ''C'' Map.empty [object_klass] (meta_type ga g)"


text \<open>A class \<^verbatim>\<open>E\<close> that binds \<^verbatim>\<open>attr\<close> to a descriptor with \<^verbatim>\<open>__get__\<close> only.\<close>

definition class_E :: "outcome \<Rightarrow> target" where
  "class_E r = class_object 50 ''E'' [''attr'' \<mapsto> get_descr 6 r] [object_klass] type_type"


text \<open>The same class as the type of an instance with an empty dictionary.\<close>

definition klass_E :: "outcome \<Rightarrow> klass" where
  "klass_E r = \<lparr>cls_name = ''E'', cls_dict = [''attr'' \<mapsto> get_descr 6 r]\<rparr>"

definition inst_e :: "outcome \<Rightarrow> hook option \<Rightarrow> target" where
  "inst_e r g =
     instance_of 51 ((new_type 50 ''E'' [klass_E r, object_klass])\<lparr>attr_getattr := g\<rparr>)
       Map.empty"

text \<open>The class of the first doctest as a target.\<close>

definition class_A :: target where
  "class_A = class_object 10 ''A'' [''attr'' \<mapsto> plain_value 1] [object_klass] type_type"

text \<open>
  A class \<^verbatim>\<open>G\<close> that binds \<^verbatim>\<open>attr\<close> to a descriptor with \<^verbatim>\<open>__get__\<close> only, with a
  metaclass that binds \<^verbatim>\<open>attr\<close> to a data descriptor.
\<close>

definition klass_MetaD :: klass where
  "klass_MetaD = \<lparr>cls_name = ''Meta'', cls_dict = [''attr'' \<mapsto> data_descr 7 Returns]\<rparr>"

definition class_G :: target where
  "class_G =
     class_object 43 ''G'' [''attr'' \<mapsto> get_descr 8 Returns] [object_klass]
       (new_type 42 ''Meta'' [klass_MetaD, type_klass, object_klass])"

text \<open>
  \<^verbatim>\<open>class N(D): attr = None\<close>, as the type of an instance with an empty dictionary and
  (without the base \<^verbatim>\<open>D\<close>, with the given body) as a target itself.
\<close>

definition klass_N :: klass where
  "klass_N = \<lparr>cls_name = ''N'', cls_dict = [''attr'' \<mapsto> PyNone]\<rparr>"

definition type_N :: pytype where
  "type_N = new_type 60 ''N'' [klass_N, klass_D Returns, object_klass]"

definition inst_n :: target where
  "inst_n = instance_of 61 type_N Map.empty"

definition class_N :: "(string \<rightharpoonup> pyobj) \<Rightarrow> target" where
  "class_N d = class_object 62 ''N'' d [object_klass] type_type"


text \<open>An old-style instance: its type is \<^verbatim>\<open>types.InstanceType\<close>.\<close>

definition old_style_instance :: target where
  "old_style_instance =
     instance_of 70
       ((type_D_hooked (Raises (OtherError ''ValueError'')))\<lparr>type_tag := InstanceType\<rparr>)
       Map.empty"


section \<open>Class dictionaries without their None entries\<close>

text \<open>
  Used to state that the walks cannot tell a name bound to \<^verbatim>\<open>None\<close> from a missing
  name: the dictionaries of the linearizations with every such binding removed. The
  target's own \<^verbatim>\<open>__dict__\<close> is left as it is.
\<close>

definition drop_none :: "(string \<rightharpoonup> pyobj) \<Rightarrow> (string \<rightharpoonup> pyobj)" where
  "drop_none d = (\<lambda>k. case d k of None \<Rightarrow> None | Some PyNone \<Rightarrow> None | Some (PyObj i g s e) \<Rightarrow> Some (PyObj i g s e))"

definition drop_none_klass :: "klass \<Rightarrow> klass" where
  "drop_none_klass c = c\<lparr>cls_dict := drop_none (cls_dict c)\<rparr>"

definition drop_none_classes :: "target \<Rightarrow> target" where
  "drop_none_classes obj =
     obj\<lparr>obj_type := (obj_type obj)\<lparr>type_mro := map drop_none_klass (type_mro (obj_type obj))\<rparr>,
         obj_mro := map drop_none_klass (obj_mro obj)\<rparr>"


section \<open>Unfolding rules\<close>

lemmas ex_defs = slot_wrapper_def user_method_def naming_method_def object_klass_def
  type_klass_def new_type_def
  type_type_def instance_of_def class_object_def plain_value_def get_descr_def data_descr_def
  klass_A_def type_A_def inst_a_def klass_B_def type_B_def inst_b_def class_B_def klass_D_def
  type_D_def inst_d_def type_D_hooked_def inst_d_hooked_def type_B_hooked_def
  inst_b_hooked_def type_B_fallback_def inst_k_def klass_Meta_def meta_type_def class_C_def
  class_E_def klass_E_def inst_e_def class_A_def klass_MetaD_def class_G_def klass_N_def type_N_def inst_n_def class_N_def old_style_instance_def

lemmas alg_defs = getattr_via_instance_def getattr_via_instance_try_def
  getattr_via_instance_steps_def getattr_via_class_def getattr_via_class_try_def
  getattr_via_class_steps_def setattr_via_instance_def delattr_via_instance_def
  setattr_via_class_def delattr_via_class_def override_info_def fallback_def
  call_override_def in_own_dict_def instancename_def own_location_def builtin_getattr_def
  attribute_lookup_def call_hook_def dict_get_def isdatadescriptor_def
  isnondatadescriptor_def showattr_def route_def isnewstyle_def

section \<open>The walks over a linearization\<close>

text \<open>
  Each walk stops at the first class whose dictionary gives a value that is not
  \<^verbatim>\<open>None\<close>, and finds nothing when every class gives \<^verbatim>\<open>None\<close>.
\<close>

lemma dict_get_absent: "d nm = None \<Longrightarrow> dict_get d nm = PyNone"
  by (simp add: dict_get_def)

lemma mro_lookup_first:
  "(\<forall>k\<in>set pre. dict_get (cls_dict k) nm = PyNone) \<Longrightarrow>
   dict_get (cls_dict c) nm = PyObj i g s d \<Longrightarrow>
   mro_lookup (pre @ c # post) nm = Some (PyObj i g s d, cls_name c @ ''.__dict__'')"
  by (induction pre) auto

lemma mro_lookup_absent:
  "(\<forall>k\<in>set m. dict_get (cls_dict k) nm = PyNone) \<Longrightarrow> mro_lookup m nm = None"
  by (induction m) auto

lemma set_walk_first:
  "(\<forall>k\<in>set pre. dict_get (cls_dict k) nm = PyNone) \<Longrightarrow>
   dict_get (cls_dict c) nm = PyObj i g s d \<Longrightarrow>
   set_walk (pre @ c # post) nm =
     (if s \<or> d then Some (''set descriptor'', cls_name c @ ''.__dict__'') else None)"
  by (induction pre) auto

lemma set_walk_absent:
  "(\<forall>k\<in>set m. dict_get (cls_dict k) nm = PyNone) \<Longrightarrow> set_walk m nm = None"
  by (induction m) auto

lemma class_walk_absent:
  "(\<forall>k\<in>set m. dict_get (cls_dict k) nm = PyNone) \<Longrightarrow> class_walk m nm cid = None"
  by (induction m) auto

lemma isnondatadescriptor_PyObj:
  "isnondatadescriptor a \<Longrightarrow> \<exists>i f. a = PyObj i (Some f) False False"
  by (cases a) (auto simp: isnondatadescriptor_def split: option.splits)

lemma class_walk_first:
  "(\<forall>k\<in>set pre. dict_get (cls_dict k) nm = PyNone) \<Longrightarrow>
   dict_get (cls_dict c) nm = PyObj i g s d \<Longrightarrow>
   class_walk (pre @ c # post) nm cid =
     Some (if isgetdescriptor (PyObj i g s d)
           then then_return (call_get (PyObj i g s d) None cid)
                  (''get descriptor'', cls_name c @ ''.__dict__'')
           else ([], Inr (''attribute'', cls_name c @ ''.__dict__'')))"
  by (induction pre) auto

lemma mro_lookup_in:
  "mro_lookup m nm = Some (a, l) \<Longrightarrow> \<exists>k\<in>set m. a = dict_get (cls_dict k) nm"
  by (induction m) (auto split: pyobj.splits)

section \<open>Step 1: the override hooks\<close>

lemma override_info_none:
  "\<not> isoverridemethod f \<Longrightarrow> override_info cls f = None"
  by (cases f) (simp_all add: override_info_def)

lemma override_info_some:
  "is_method h \<Longrightarrow> override_info cls (Some h) = Some (''attribute'', type_name cls @ ''.'' @ hook_name h)"
  by (simp add: override_info_def)

lemma no_override_try:
  "\<not> isoverridemethod (attr_getattribute (obj_type inst)) \<Longrightarrow>
   getattr_via_instance_try inst nm = getattr_via_instance_steps inst nm"
  by (cases "attr_getattribute (obj_type inst)") (simp_all add: getattr_via_instance_try_def)

lemma no_override_class_try:
  "\<not> isoverridemethod (attr_getattribute (obj_type cls)) \<Longrightarrow>
   getattr_via_class_try cls nm = getattr_via_class_steps cls nm"
  by (cases "attr_getattribute (obj_type cls)") (simp_all add: getattr_via_class_try_def)

lemma try_same_when_steps_same:
  "getattr_via_class_steps cls nm = getattr_via_instance_steps cls nm \<Longrightarrow>
   getattr_via_class_try cls nm = getattr_via_instance_try cls nm"
  by (simp add: getattr_via_class_try_def getattr_via_instance_try_def split: option.splits)

section \<open>Lookups on the target that run no hook\<close>

text \<open>
  Without a user-defined \<^verbatim>\<open>__getattribute__\<close> the default lookup answers when it finds
  the attribute, and \<^verbatim>\<open>__getattr__\<close> is called only when it does not.
\<close>

lemma attribute_lookup_found:
  "\<not> isoverridemethod (attr_getattribute (obj_type obj)) \<Longrightarrow>
   attribute_lookup obj n (Some v) reply = ([], Inr (Some v))"
  by (cases "attr_getattribute (obj_type obj)") (simp_all add: attribute_lookup_def)

lemma builtin_getattr_found:
  "\<not> isoverridemethod (attr_getattribute (obj_type obj)) \<Longrightarrow>
   builtin_getattr obj n (Some v) reply = ([], Inr (Some v))"
  by (simp add: builtin_getattr_def attribute_lookup_found)

lemma builtin_getattr_absent:
  "\<not> isoverridemethod (attr_getattribute (obj_type obj)) \<Longrightarrow>
   attr_getattr (obj_type obj) = None \<Longrightarrow>
   builtin_getattr obj n None reply = ([], Inr None)"
  by (cases "attr_getattribute (obj_type obj)")
    (simp_all add: builtin_getattr_def attribute_lookup_def)

lemma builtin_getattr_fallback:
  "\<not> isoverridemethod (attr_getattribute (obj_type obj)) \<Longrightarrow>
   attr_getattr (obj_type obj) = Some g \<Longrightarrow>
   builtin_getattr obj n None reply = default_None (call_hook g (obj_id obj) n (reply g))"
  by (cases "attr_getattribute (obj_type obj)")
    (simp_all add: builtin_getattr_def attribute_lookup_def)

lemma builtin_getattr_override_fails:
  "attr_getattribute (obj_type obj) = Some h \<Longrightarrow> is_method h \<Longrightarrow>
   invoke h (obj_id obj) n = Raises (OtherError m) \<Longrightarrow>
   builtin_getattr obj n found reply =
     ([InvokeHook (hook_name h) (obj_id obj) n (Raises (OtherError m))], Inl (OtherError m))"
  by (simp add: builtin_getattr_def attribute_lookup_def call_hook_def)

lemma in_own_dict_plain:
  "\<not> isoverridemethod (attr_getattribute (obj_type inst)) \<Longrightarrow> obj_dict inst = Some d \<Longrightarrow>
   in_own_dict inst nm = ([], Inr (nm \<in> dom d))"
  by (auto simp: in_own_dict_def builtin_getattr_found attribute_lookup_found)

lemma in_own_dict_no_dict:
  "\<not> isoverridemethod (attr_getattribute (obj_type inst)) \<Longrightarrow> obj_dict inst = None \<Longrightarrow>
   attr_getattr (obj_type inst) = None \<Longrightarrow> in_own_dict inst nm = ([], Inr False)"
  by (simp add: in_own_dict_def builtin_getattr_absent)

lemma instancename_plain:
  "\<not> isoverridemethod (attr_getattribute (obj_type inst)) \<Longrightarrow>
   obj_name inst \<noteq> None \<or> attr_getattr (obj_type inst) = None \<Longrightarrow>
   instancename inst = ([], Inr (or_instance (obj_name inst)))"
  by (cases "obj_name inst")
    (auto simp: instancename_def builtin_getattr_found builtin_getattr_absent)

lemma own_location_plain:
  "\<not> isoverridemethod (attr_getattribute (obj_type inst)) \<Longrightarrow>
   obj_name inst \<noteq> None \<or> attr_getattr (obj_type inst) = None \<Longrightarrow>
   own_location inst = ([], Inr (''attribute'', or_instance (obj_name inst) @ ''.__dict__''))"
  by (simp add: own_location_def instancename_plain)

lemma own_location_fallback:
  "\<not> isoverridemethod (attr_getattribute (obj_type inst)) \<Longrightarrow> obj_name inst = None \<Longrightarrow>
   attr_getattr (obj_type inst) = Some g \<Longrightarrow>
   own_location inst =
     ([InvokeHook (hook_name g) (obj_id inst) ''__name__''
         (invoke g (obj_id inst) ''__name__'')],
      case invoke g (obj_id inst) ''__name__'' of
        Returns \<Rightarrow>
          Inr (''attribute'', or_instance (reply_name g (obj_id inst)) @ ''.__dict__'')
      | Raises AttributeError \<Rightarrow> Inr (''attribute'', ''instance.__dict__'')
      | Raises (OtherError m) \<Rightarrow> Inl (OtherError m))"
  by (simp add: own_location_def instancename_def builtin_getattr_fallback call_hook_def
      split: outcome.splits exn.splits)

section \<open>The handler of the read algorithms\<close>

lemma except_then_return:
  "except_AttributeError (then_return (t, out) r) cls =
     (t, case out of
           Returns \<Rightarrow> Inr r
         | Raises AttributeError \<Rightarrow> Inr (fallback cls)
         | Raises (OtherError m) \<Rightarrow> Inl (OtherError m))"
  by (simp split: outcome.splits exn.splits)

lemma fallback_cases:
  "fallback cls =
     (case attr_getattr cls of
        None \<Rightarrow> (''attribute'', ''Not found'')
      | Some g \<Rightarrow> (''attribute'', type_name cls @ ''.'' @ hook_name g))"
  by (simp add: fallback_def split: option.splits)

section \<open>None entries of class dictionaries\<close>

lemma dict_get_drop_none: "dict_get (drop_none d) nm = dict_get d nm"
  by (simp add: dict_get_def drop_none_def split: option.splits pyobj.splits)

lemma dict_get_drop_none_klass:
  "dict_get (cls_dict (drop_none_klass c)) nm = dict_get (cls_dict c) nm"
  by (simp add: drop_none_klass_def dict_get_drop_none)

lemma cls_name_drop_none_klass: "cls_name (drop_none_klass c) = cls_name c"
  by (simp add: drop_none_klass_def)

lemma mro_lookup_drop_none: "mro_lookup (map drop_none_klass m) nm = mro_lookup m nm"
  by (induction m)
    (simp_all add: dict_get_drop_none_klass cls_name_drop_none_klass split: pyobj.splits)

lemma set_walk_drop_none: "set_walk (map drop_none_klass m) nm = set_walk m nm"
  by (induction m)
    (simp_all add: dict_get_drop_none_klass cls_name_drop_none_klass split: pyobj.splits)

lemma class_walk_drop_none: "class_walk (map drop_none_klass m) nm cid = class_walk m nm cid"
  by (induction m)
    (simp_all add: dict_get_drop_none_klass cls_name_drop_none_klass split: pyobj.splits)

lemma attribute_lookup_drop_none:
  "attribute_lookup (drop_none_classes x) n found reply = attribute_lookup x n found reply"
  by (simp add: attribute_lookup_def drop_none_classes_def Let_def split: option.splits)

lemma builtin_getattr_drop_none:
  "builtin_getattr (drop_none_classes x) n found reply = builtin_getattr x n found reply"
  by (simp add: builtin_getattr_def attribute_lookup_drop_none)

lemma fields_drop_none:
  "obj_id (drop_none_classes x) = obj_id x"
  "obj_dict (drop_none_classes x) = obj_dict x"
  "obj_name (drop_none_classes x) = obj_name x"
  "type_id (obj_type (drop_none_classes x)) = type_id (obj_type x)"
  by (simp_all add: drop_none_classes_def)

lemma in_own_dict_drop_none: "in_own_dict (drop_none_classes x) nm = in_own_dict x nm"
  unfolding in_own_dict_def builtin_getattr_drop_none attribute_lookup_drop_none
    fields_drop_none
  by (rule refl)

lemma instancename_drop_none: "instancename (drop_none_classes x) = instancename x"
  unfolding instancename_def builtin_getattr_drop_none fields_drop_none
  by (rule refl)

lemma own_location_drop_none: "own_location (drop_none_classes x) = own_location x"
  by (simp add: own_location_def instancename_drop_none)

lemma fallback_drop_none: "fallback (obj_type (drop_none_classes x)) = fallback (obj_type x)"
  by (simp add: fallback_def drop_none_classes_def split: option.splits)

lemma instance_steps_drop_none:
  "getattr_via_instance_steps (drop_none_classes x) nm = getattr_via_instance_steps x nm"
proof -
  have "mro_lookup (type_mro (obj_type (drop_none_classes x))) nm =
      mro_lookup (type_mro (obj_type x)) nm"
    by (simp add: drop_none_classes_def mro_lookup_drop_none)
  moreover have "obj_id (drop_none_classes x) = obj_id x"
    "type_id (obj_type (drop_none_classes x)) = type_id (obj_type x)"
    by (simp_all add: drop_none_classes_def)
  ultimately show ?thesis
    unfolding getattr_via_instance_steps_def Let_def in_own_dict_drop_none
      own_location_drop_none fields_drop_none
    by (simp split: option.splits prod.splits)
qed

lemma class_steps_drop_none:
  "getattr_via_class_steps (drop_none_classes x) nm = getattr_via_class_steps x nm"
proof -
  have "mro_lookup (type_mro (obj_type (drop_none_classes x))) nm =
      mro_lookup (type_mro (obj_type x)) nm"
    by (simp add: drop_none_classes_def mro_lookup_drop_none)
  moreover have "class_walk (obj_mro (drop_none_classes x)) nm (obj_id (drop_none_classes x)) =
      class_walk (obj_mro x) nm (obj_id x)"
    by (simp add: drop_none_classes_def class_walk_drop_none)
  moreover have "obj_id (drop_none_classes x) = obj_id x"
    "type_id (obj_type (drop_none_classes x)) = type_id (obj_type x)"
    by (simp_all add: drop_none_classes_def)
  ultimately show ?thesis
    by (simp add: getattr_via_class_steps_def Let_def split: option.splits prod.splits)
qed

lemma call_override_drop_none:
  "call_override h (drop_none_classes x) nm = call_override h x nm"
  by (simp add: call_override_def drop_none_classes_def)

lemma hooks_drop_none:
  "attr_getattribute (obj_type (drop_none_classes x)) = attr_getattribute (obj_type x)"
  "attr_setattr (obj_type (drop_none_classes x)) = attr_setattr (obj_type x)"
  "attr_delattr (obj_type (drop_none_classes x)) = attr_delattr (obj_type x)"
  by (simp_all add: drop_none_classes_def)

lemma override_info_drop_none:
  "override_info (obj_type (drop_none_classes x)) f = override_info (obj_type x) f"
  by (simp add: override_info_def drop_none_classes_def split: option.splits)

lemma set_walk_target_drop_none:
  "set_walk (type_mro (obj_type (drop_none_classes x))) nm = set_walk (type_mro (obj_type x)) nm"
  by (simp add: drop_none_classes_def set_walk_drop_none)

lemma except_drop_none:
  "except_AttributeError p (obj_type (drop_none_classes x)) = except_AttributeError p (obj_type x)"
  by (cases "(p, obj_type x)" rule: except_AttributeError.cases)
    (simp_all add: fallback_drop_none)

lemma instance_try_drop_none:
  "getattr_via_instance_try (drop_none_classes x) nm = getattr_via_instance_try x nm"
  by (simp add: getattr_via_instance_try_def hooks_drop_none instance_steps_drop_none
      call_override_drop_none split: option.splits)

lemma class_try_drop_none:
  "getattr_via_class_try (drop_none_classes x) nm = getattr_via_class_try x nm"
  by (simp add: getattr_via_class_try_def hooks_drop_none class_steps_drop_none
      call_override_drop_none split: option.splits)

section \<open>Capability predicates: properties\<close>

text \<open>
  C8. The four capability predicates are total functions to booleans (no effect, no
  exception). A value is a non-data descriptor exactly when it is a get descriptor and
  not a set descriptor, a data descriptor exactly when it is both; it is a set descriptor
  exactly when it has \<^verbatim>\<open>__set__\<close> or \<^verbatim>\<open>__delete__\<close>, either one being enough; and all
  four predicates are false of \<^verbatim>\<open>None\<close>.
\<close>

theorem capability_predicates:
  "isnondatadescriptor v = (isgetdescriptor v \<and> \<not> issetdescriptor v)
   \<and> isdatadescriptor v = (isgetdescriptor v \<and> issetdescriptor v)
   \<and> issetdescriptor (PyObj i g s d) = (s \<or> d)
   \<and> issetdescriptor (PyObj i g True False)
   \<and> issetdescriptor (PyObj i g False True)
   \<and> \<not> issetdescriptor (PyObj i g False False)
   \<and> isgetdescriptor (PyObj i g s d) = (g \<noteq> None)
   \<and> \<not> isgetdescriptor PyNone \<and> \<not> issetdescriptor PyNone
   \<and> \<not> isnondatadescriptor PyNone \<and> \<not> isdatadescriptor PyNone"
  by (simp add: isnondatadescriptor_def isdatadescriptor_def split: option.split)

section \<open>Data descriptors and instance storage\<close>

text \<open>
  C1, as amended. Let the first class of \<^verbatim>\<open>type(I).__mro__\<close> whose dictionary gives a
  value other than \<^verbatim>\<open>None\<close> for the name give a data descriptor (it has \<^verbatim>\<open>__get__\<close>,
  and \<^verbatim>\<open>__set__\<close> or \<^verbatim>\<open>__delete__\<close>). If the type has no user-defined
  \<^verbatim>\<open>__getattribute__\<close> and the descriptor's \<^verbatim>\<open>__get__\<close> returns, reading through the
  instance calls that \<^verbatim>\<open>__get__\<close> once, on the instance and its type, and reports
  \<^verbatim>\<open>data descriptor\<close> at that class, whatever the instance's own dictionary holds. If the
  type has no user-defined \<^verbatim>\<open>__setattr__\<close> (\<^verbatim>\<open>__delattr__\<close>), writing (deleting)
  reports \<^verbatim>\<open>set descriptor\<close> at that class.
\<close>

theorem data_descriptor_dominates:
  assumes mro: "type_mro (obj_type inst) = pre @ c # post"
    and pre: "\<forall>k\<in>set pre. dict_get (cls_dict k) nm = PyNone"
    and c: "dict_get (cls_dict c) nm = PyObj i (Some f) s d"
    and sd: "s \<or> d"
  shows "(\<not> isoverridemethod (attr_getattribute (obj_type inst))
            \<and> f (Some (obj_id inst)) (type_id (obj_type inst)) = Returns \<longrightarrow>
          getattr_via_instance inst nm =
            ([InvokeGet i (Some (obj_id inst)) (type_id (obj_type inst)) Returns],
             Inr (''data descriptor'', cls_name c @ ''.__dict__'')))
       \<and> (\<not> isoverridemethod (attr_setattr (obj_type inst)) \<longrightarrow>
          setattr_via_instance inst nm =
            ([], Inr (''set descriptor'', cls_name c @ ''.__dict__'')))
       \<and> (\<not> isoverridemethod (attr_delattr (obj_type inst)) \<longrightarrow>
          delattr_via_instance inst nm =
            ([], Inr (''set descriptor'', cls_name c @ ''.__dict__'')))"
proof -
  have look: "mro_lookup (type_mro (obj_type inst)) nm =
      Some (PyObj i (Some f) s d, cls_name c @ ''.__dict__'')"
    using mro_lookup_first [OF pre c] mro by simp
  have walk: "set_walk (type_mro (obj_type inst)) nm =
      Some (''set descriptor'', cls_name c @ ''.__dict__'')"
    using set_walk_first [OF pre c] mro sd by simp
  have rd: "getattr_via_instance inst nm =
      ([InvokeGet i (Some (obj_id inst)) (type_id (obj_type inst)) Returns],
       Inr (''data descriptor'', cls_name c @ ''.__dict__''))"
    if "\<not> isoverridemethod (attr_getattribute (obj_type inst))"
      and "f (Some (obj_id inst)) (type_id (obj_type inst)) = Returns"
    using that look sd
    by (simp add: getattr_via_instance_def no_override_try getattr_via_instance_steps_def
        isdatadescriptor_def)
  have wr: "setattr_via_instance inst nm =
      ([], Inr (''set descriptor'', cls_name c @ ''.__dict__''))"
    if "\<not> isoverridemethod (attr_setattr (obj_type inst))"
    using that walk by (simp add: setattr_via_instance_def override_info_none)
  have dl: "delattr_via_instance inst nm =
      ([], Inr (''set descriptor'', cls_name c @ ''.__dict__''))"
    if "\<not> isoverridemethod (attr_delattr (obj_type inst))"
    using that walk by (simp add: delattr_via_instance_def override_info_none)
  from rd wr dl show ?thesis by blast
qed

text \<open>
  The instance of \<^verbatim>\<open>D\<close> has \<^verbatim>\<open>attr\<close> in its own dictionary, and the data descriptor
  of the class is reported all the same.
\<close>

theorem data_descriptor_dominates_witness:
  "in_own_dict (inst_d Returns) ''attr'' = ([], Inr True)
   \<and> getattr_via_instance (inst_d Returns) ''attr'' =
       ([InvokeGet 4 (Some 31) 30 Returns], Inr (''data descriptor'', ''D.__dict__''))
   \<and> setattr_via_instance (inst_d Returns) ''attr'' =
       ([], Inr (''set descriptor'', ''D.__dict__''))
   \<and> delattr_via_instance (inst_d Returns) ''attr'' =
       ([], Inr (''set descriptor'', ''D.__dict__''))"
proof -
  have mro: "type_mro (obj_type (inst_d Returns)) = [] @ klass_D Returns # [object_klass]"
    by (simp add: ex_defs)
  have pre: "\<forall>k\<in>set []. dict_get (cls_dict k) ''attr'' = PyNone"
    by simp
  have c: "dict_get (cls_dict (klass_D Returns)) ''attr'' =
      PyObj 4 (Some (\<lambda>a b. Returns)) True False"
    by (simp add: ex_defs dict_get_def)
  have own: "in_own_dict (inst_d Returns) ''attr'' = ([], Inr True)"
    by (simp add: ex_defs alg_defs)
  from data_descriptor_dominates [OF mro pre c] own show ?thesis
    by (simp add: ex_defs)
qed

text \<open>
  As stated without the provisos the claim fails: with user-defined hooks on \<^verbatim>\<open>D\<close> the
  three queries report the hooks, and a \<^verbatim>\<open>__get__\<close> that raises
  \<^verbatim>\<open>AttributeError\<close> sends the read to step 8.
\<close>

theorem data_descriptor_dominates_counterexample:
  "mro_lookup (type_mro (obj_type (inst_d_hooked Returns))) ''attr'' =
     Some (data_descr 4 Returns, ''D.__dict__'')
   \<and> isdatadescriptor (data_descr 4 Returns)
   \<and> getattr_via_instance (inst_d_hooked Returns) ''attr'' =
       ([InvokeHook ''__getattribute__'' 31 ''attr'' Returns],
        Inr (''attribute'', ''D.__getattribute__''))
   \<and> setattr_via_instance (inst_d_hooked Returns) ''attr'' =
       ([], Inr (''attribute'', ''D.__setattr__''))
   \<and> delattr_via_instance (inst_d_hooked Returns) ''attr'' =
       ([], Inr (''attribute'', ''D.__delattr__''))
   \<and> getattr_via_instance (inst_d (Raises AttributeError)) ''attr'' =
       ([InvokeGet 4 (Some 31) 30 (Raises AttributeError)], Inr (''attribute'', ''Not found''))"
  by (simp add: ex_defs alg_defs)

text \<open>
  C2, as amended. Let the first class of \<^verbatim>\<open>type(I).__mro__\<close> whose dictionary has the
  name bind it to a non-data descriptor, let the instance's own dictionary have the name
  too, and let the type have no user-defined \<^verbatim>\<open>__getattribute__\<close>. Then reading through
  the instance does not call the descriptor and reports \<^verbatim>\<open>attribute\<close> at the
  instance's own dictionary, named after
  \<^verbatim>\<open>getattr(I, '__name__', None) or 'instance'\<close>. That lookup calls no hook when the
  instance has a \<^verbatim>\<open>__name__\<close> or the type has no \<^verbatim>\<open>__getattr__\<close>; otherwise it calls
  \<^verbatim>\<open>__getattr__\<close> once, whose \<^verbatim>\<open>AttributeError\<close> stands for \<^verbatim>\<open>None\<close> and whose
  other exceptions reach the caller.
\<close>

theorem instance_dict_beats_nondata_descriptor:
  assumes mro: "type_mro (obj_type inst) = pre @ c # post"
    and pre: "\<forall>k\<in>set pre. cls_dict k nm = None"
    and c: "cls_dict c nm = Some attr"
    and nd: "isnondatadescriptor attr"
    and own: "obj_dict inst = Some dct" "nm \<in> dom dct"
    and noov: "\<not> isoverridemethod (attr_getattribute (obj_type inst))"
  shows "(obj_name inst \<noteq> None \<or> attr_getattr (obj_type inst) = None \<longrightarrow>
            getattr_via_instance inst nm =
              ([], Inr (''attribute'', or_instance (obj_name inst) @ ''.__dict__'')))
       \<and> (obj_name inst = None \<and> attr_getattr (obj_type inst) = Some g \<longrightarrow>
            getattr_via_instance inst nm =
              ([InvokeHook (hook_name g) (obj_id inst) ''__name__''
                  (invoke g (obj_id inst) ''__name__'')],
               case invoke g (obj_id inst) ''__name__'' of
                 Returns \<Rightarrow>
                   Inr (''attribute'', or_instance (reply_name g (obj_id inst)) @ ''.__dict__'')
               | Raises AttributeError \<Rightarrow> Inr (''attribute'', ''instance.__dict__'')
               | Raises (OtherError m) \<Rightarrow> Inl (OtherError m)))"
proof -
  obtain i f where a: "attr = PyObj i (Some f) False False"
    using isnondatadescriptor_PyObj [OF nd] by blast
  have pre': "\<forall>k\<in>set pre. dict_get (cls_dict k) nm = PyNone"
    using pre by (simp add: dict_get_absent)
  have c': "dict_get (cls_dict c) nm = PyObj i (Some f) False False"
    using c a by (simp add: dict_get_def)
  have look: "mro_lookup (type_mro (obj_type inst)) nm =
      Some (PyObj i (Some f) False False, cls_name c @ ''.__dict__'')"
    using mro_lookup_first [OF pre' c'] mro by simp
  have inown: "in_own_dict inst nm = ([], Inr True)"
    using in_own_dict_plain [OF noov own(1), of nm] own(2) by simp
  have steps: "getattr_via_instance_try inst nm = own_location inst"
    using look inown
    by (simp add: no_override_try [OF noov] getattr_via_instance_steps_def isdatadescriptor_def)
  have plain: "getattr_via_instance inst nm =
      ([], Inr (''attribute'', or_instance (obj_name inst) @ ''.__dict__''))"
    if "obj_name inst \<noteq> None \<or> attr_getattr (obj_type inst) = None"
    using own_location_plain [OF noov that]
    by (simp add: getattr_via_instance_def steps)
  have hooked: "getattr_via_instance inst nm =
      ([InvokeHook (hook_name g) (obj_id inst) ''__name__''
          (invoke g (obj_id inst) ''__name__'')],
       case invoke g (obj_id inst) ''__name__'' of
         Returns \<Rightarrow>
           Inr (''attribute'', or_instance (reply_name g (obj_id inst)) @ ''.__dict__'')
       | Raises AttributeError \<Rightarrow> Inr (''attribute'', ''instance.__dict__'')
       | Raises (OtherError m) \<Rightarrow> Inl (OtherError m))"
    if "obj_name inst = None" "attr_getattr (obj_type inst) = Some g"
    using own_location_fallback [OF noov that]
    by (simp add: getattr_via_instance_def steps split: outcome.splits exn.splits)
  from plain hooked show ?thesis by blast
qed

text \<open>
  The instance of the second doctest; an instance of the same class with a
  \<^verbatim>\<open>__getattr__\<close> that raises \<^verbatim>\<open>KeyError\<close>; and one whose \<^verbatim>\<open>__getattr__\<close> returns
  \<^verbatim>\<open>'x'\<close> for every name.
\<close>

theorem instance_dict_beats_nondata_descriptor_witness:
  "getattr_via_instance inst_b ''attr'' = ([], Inr (''attribute'', ''instance.__dict__''))
   \<and> getattr_via_instance
        (inst_k (user_method ''__getattr__'' (Raises (OtherError ''KeyError'')))) ''attr'' =
       ([InvokeHook ''__getattr__'' 22 ''__name__'' (Raises (OtherError ''KeyError''))],
        Inl (OtherError ''KeyError''))
   \<and> getattr_via_instance (inst_k (naming_method ''__getattr__'' ''x'')) ''attr'' =
       ([InvokeHook ''__getattr__'' 22 ''__name__'' Returns],
        Inr (''attribute'', ''x.__dict__''))"
proof -
  let ?k = "inst_k (user_method ''__getattr__'' (Raises (OtherError ''KeyError'')))"
  let ?n = "inst_k (naming_method ''__getattr__'' ''x'')"
  have pre: "\<forall>k\<in>set []. cls_dict k ''attr'' = None"
    by simp
  have c: "cls_dict klass_B ''attr'' = Some (get_descr 2 Returns)"
    by (simp add: ex_defs)
  have nd: "isnondatadescriptor (get_descr 2 Returns)"
    by (simp add: ex_defs isnondatadescriptor_def)
  have mem: "''attr'' \<in> dom [''attr'' \<mapsto> get_descr 3 Returns]"
    by simp
  have b_mro: "type_mro (obj_type inst_b) = [] @ klass_B # [object_klass]"
    and b_own: "obj_dict inst_b = Some [''attr'' \<mapsto> get_descr 3 Returns]"
    and b_noov: "\<not> isoverridemethod (attr_getattribute (obj_type inst_b))"
    and b_plain: "obj_name inst_b \<noteq> None \<or> attr_getattr (obj_type inst_b) = None"
    by (simp_all add: ex_defs)
  have k_mro: "type_mro (obj_type ?k) = [] @ klass_B # [object_klass]"
    and k_own: "obj_dict ?k = Some [''attr'' \<mapsto> get_descr 3 Returns]"
    and k_noov: "\<not> isoverridemethod (attr_getattribute (obj_type ?k))"
    and k_hook: "obj_name ?k = None \<and> attr_getattr (obj_type ?k) =
        Some (user_method ''__getattr__'' (Raises (OtherError ''KeyError'')))"
    by (simp_all add: ex_defs)
  have n_mro: "type_mro (obj_type ?n) = [] @ klass_B # [object_klass]"
    and n_own: "obj_dict ?n = Some [''attr'' \<mapsto> get_descr 3 Returns]"
    and n_noov: "\<not> isoverridemethod (attr_getattribute (obj_type ?n))"
    and n_hook: "obj_name ?n = None \<and> attr_getattr (obj_type ?n) =
        Some (naming_method ''__getattr__'' ''x'')"
    by (simp_all add: ex_defs)
  from instance_dict_beats_nondata_descriptor [OF b_mro pre c nd b_own mem b_noov] b_plain
  have r1: "getattr_via_instance inst_b ''attr'' =
      ([], Inr (''attribute'', or_instance (obj_name inst_b) @ ''.__dict__''))"
    by blast
  from instance_dict_beats_nondata_descriptor [OF k_mro pre c nd k_own mem k_noov] k_hook
  have r2: "getattr_via_instance ?k ''attr'' =
      ([InvokeHook ''__getattr__'' 22 ''__name__'' (Raises (OtherError ''KeyError''))],
       Inl (OtherError ''KeyError''))"
    by (simp add: ex_defs)
  from instance_dict_beats_nondata_descriptor [OF n_mro pre c nd n_own mem n_noov] n_hook
  have r3: "getattr_via_instance ?n ''attr'' =
      ([InvokeHook ''__getattr__'' 22 ''__name__'' Returns],
       Inr (''attribute'', ''x.__dict__''))"
    by (simp add: ex_defs)
  from r1 r2 r3 show ?thesis by (simp add: ex_defs)
qed

text \<open>With a user-defined \<^verbatim>\<open>__getattribute__\<close> on the class, the hook is reported instead.\<close>

theorem instance_dict_beats_nondata_descriptor_counterexample:
  "type_mro (obj_type (inst_b_hooked Returns)) = [klass_B, object_klass]
   \<and> cls_dict klass_B ''attr'' = Some (get_descr 2 Returns)
   \<and> isnondatadescriptor (get_descr 2 Returns)
   \<and> obj_dict (inst_b_hooked Returns) = Some [''attr'' \<mapsto> get_descr 3 Returns]
   \<and> getattr_via_instance (inst_b_hooked Returns) ''attr'' =
       ([InvokeHook ''__getattribute__'' 21 ''attr'' Returns],
        Inr (''attribute'', ''A.__getattribute__''))"
  by (simp add: ex_defs alg_defs)

section \<open>Reading a name that no class has\<close>

text \<open>
  C3, as amended. Let the name be in no dictionary of \<^verbatim>\<open>C.__mro__\<close> and in none of
  \<^verbatim>\<open>type(C).__mro__\<close>, and let the metaclass's \<^verbatim>\<open>__getattribute__\<close>, if it is
  user-defined, raise \<^verbatim>\<open>AttributeError\<close> when called on the class and the name. Then
  reading through the class reports \<^verbatim>\<open>attribute\<close> at \<^verbatim>\<open>Not found\<close> when the
  metaclass has no \<^verbatim>\<open>__getattr__\<close>, and at the metaclass's name followed by the hook's
  name when it has one.
\<close>

theorem class_read_of_absent_name:
  assumes own: "\<forall>k\<in>set (obj_mro cls). cls_dict k nm = None"
    and meta: "\<forall>k\<in>set (type_mro (obj_type cls)). cls_dict k nm = None"
    and ov: "\<forall>h. attr_getattribute (obj_type cls) = Some h \<and> is_method h \<longrightarrow>
               invoke h (obj_id cls) nm = Raises AttributeError"
  shows "(attr_getattr (obj_type cls) = None \<longrightarrow>
            snd (getattr_via_class cls nm) = Inr (''attribute'', ''Not found''))
       \<and> (\<forall>h. attr_getattr (obj_type cls) = Some h \<longrightarrow>
            snd (getattr_via_class cls nm) =
              Inr (''attribute'', type_name (obj_type cls) @ ''.'' @ hook_name h))"
proof -
  have look: "mro_lookup (type_mro (obj_type cls)) nm = None"
    using meta by (intro mro_lookup_absent) (simp add: dict_get_absent)
  have walk: "class_walk (obj_mro cls) nm (obj_id cls) = None"
    using own by (intro class_walk_absent) (simp add: dict_get_absent)
  have steps: "getattr_via_class_steps cls nm = ([], Inl AttributeError)"
    using look walk by (simp add: getattr_via_class_steps_def)
  have "snd (getattr_via_class_try cls nm) = Inl AttributeError"
  proof (cases "attr_getattribute (obj_type cls)")
    case None
    then show ?thesis by (simp add: getattr_via_class_try_def steps)
  next
    case (Some h)
    then show ?thesis
      using ov by (simp add: getattr_via_class_try_def steps call_override_def)
  qed
  then have "snd (getattr_via_class cls nm) = Inr (fallback (obj_type cls))"
    by (cases "getattr_via_class_try cls nm") (simp add: getattr_via_class_def)
  then show ?thesis by (simp add: fallback_def)
qed

theorem class_read_of_absent_name_witness:
  "snd (getattr_via_class class_B ''missing'') = Inr (''attribute'', ''Not found'')
   \<and> snd (getattr_via_class
        (class_C (Some (user_method ''__getattribute__'' (Raises AttributeError)))
           (Some (user_method ''__getattr__'' Returns))) ''missing'') =
       Inr (''attribute'', ''Meta.__getattr__'')"
proof -
  let ?C = "class_C (Some (user_method ''__getattribute__'' (Raises AttributeError)))
              (Some (user_method ''__getattr__'' Returns))"
  have b1: "\<forall>k\<in>set (obj_mro class_B). cls_dict k ''missing'' = None"
    by (simp add: ex_defs)
  have b2: "\<forall>k\<in>set (type_mro (obj_type class_B)). cls_dict k ''missing'' = None"
    by (simp add: ex_defs)
  have b3: "\<forall>h. attr_getattribute (obj_type class_B) = Some h \<and> is_method h \<longrightarrow>
      invoke h (obj_id class_B) ''missing'' = Raises AttributeError"
    by (auto simp: ex_defs)
  have b4: "attr_getattr (obj_type class_B) = None"
    by (simp add: ex_defs)
  have c1: "\<forall>k\<in>set (obj_mro ?C). cls_dict k ''missing'' = None"
    by (simp add: ex_defs)
  have c2: "\<forall>k\<in>set (type_mro (obj_type ?C)). cls_dict k ''missing'' = None"
    by (simp add: ex_defs)
  have c3: "\<forall>h. attr_getattribute (obj_type ?C) = Some h \<and> is_method h \<longrightarrow>
      invoke h (obj_id ?C) ''missing'' = Raises AttributeError"
    by (auto simp: ex_defs)
  have c4: "attr_getattr (obj_type ?C) = Some (user_method ''__getattr__'' Returns)"
    by (simp add: ex_defs)
  from class_read_of_absent_name [OF b1 b2 b3] b4
  have r1: "snd (getattr_via_class class_B ''missing'') = Inr (''attribute'', ''Not found'')"
    by blast
  from class_read_of_absent_name [OF c1 c2 c3] c4
  have r2: "snd (getattr_via_class ?C ''missing'') =
      Inr (''attribute'', type_name (obj_type ?C) @ ''.'' @
        hook_name (user_method ''__getattr__'' Returns))"
    by blast
  from r1 r2 show ?thesis by (simp add: ex_defs)
qed

text \<open>
  A user-defined \<^verbatim>\<open>__getattribute__\<close> of the metaclass that returns is reported in
  step 1, although no class has the name and there is no \<^verbatim>\<open>__getattr__\<close>.
\<close>

theorem class_read_of_absent_name_counterexample:
  "map (\<lambda>k. cls_dict k ''missing'')
     (obj_mro (class_C (Some (user_method ''__getattribute__'' Returns)) None)) = [None, None]
   \<and> map (\<lambda>k. cls_dict k ''missing'')
       (type_mro (obj_type (class_C (Some (user_method ''__getattribute__'' Returns)) None))) =
       [None, None, None]
   \<and> attr_getattr (obj_type (class_C (Some (user_method ''__getattribute__'' Returns)) None)) =
       None
   \<and> getattr_via_class (class_C (Some (user_method ''__getattribute__'' Returns)) None)
       ''missing'' =
       ([InvokeHook ''__getattribute__'' 41 ''missing'' Returns],
        Inr (''attribute'', ''Meta.__getattribute__''))"
  by (simp add: ex_defs alg_defs)

section \<open>Failure semantics of the read algorithms\<close>

lemma instance_read_of_failed_probe:
  "getattr_via_instance_try x nm = then_return (t, Raises e) r \<Longrightarrow>
   getattr_via_instance x nm =
     (t, case e of
           AttributeError \<Rightarrow> Inr (fallback (obj_type x))
         | OtherError m \<Rightarrow> Inl (OtherError m))"
  by (simp add: getattr_via_instance_def split: exn.splits)

lemma class_read_of_failed_probe:
  "getattr_via_class_try x nm = then_return (t, Raises e) r \<Longrightarrow>
   getattr_via_class x nm =
     (t, case e of
           AttributeError \<Rightarrow> Inr (fallback (obj_type x))
         | OtherError m \<Rightarrow> Inl (OtherError m))"
  by (simp add: getattr_via_class_def split: exn.splits)

lemma override_probe_instance:
  "attr_getattribute (obj_type x) = Some h \<Longrightarrow> is_method h \<Longrightarrow>
   getattr_via_instance_try x nm =
     then_return
       ([InvokeHook (hook_name h) (obj_id x) nm (invoke h (obj_id x) nm)],
        invoke h (obj_id x) nm)
       (''attribute'', type_name (obj_type x) @ ''.'' @ hook_name h)"
  by (simp add: getattr_via_instance_try_def call_override_def)

lemma override_probe_class:
  "attr_getattribute (obj_type x) = Some h \<Longrightarrow> is_method h \<Longrightarrow>
   getattr_via_class_try x nm =
     then_return
       ([InvokeHook (hook_name h) (obj_id x) nm (invoke h (obj_id x) nm)],
        invoke h (obj_id x) nm)
       (''attribute'', type_name (obj_type x) @ ''.'' @ hook_name h)"
  by (simp add: getattr_via_class_try_def call_override_def)

lemma data_probe_instance:
  "\<not> isoverridemethod (attr_getattribute (obj_type x)) \<Longrightarrow>
   mro_lookup (type_mro (obj_type x)) nm = Some (PyObj j (Some f) s d, l) \<Longrightarrow> s \<or> d \<Longrightarrow>
   getattr_via_instance_try x nm =
     then_return
       ([InvokeGet j (Some (obj_id x)) (type_id (obj_type x))
           (f (Some (obj_id x)) (type_id (obj_type x)))],
        f (Some (obj_id x)) (type_id (obj_type x)))
       (''data descriptor'', l)"
  by (simp add: no_override_try getattr_via_instance_steps_def isdatadescriptor_def Let_def)

lemma data_probe_class:
  "\<not> isoverridemethod (attr_getattribute (obj_type x)) \<Longrightarrow>
   mro_lookup (type_mro (obj_type x)) nm = Some (PyObj j (Some f) s d, l) \<Longrightarrow> s \<or> d \<Longrightarrow>
   getattr_via_class_try x nm =
     then_return
       ([InvokeGet j (Some (obj_id x)) (type_id (obj_type x))
           (f (Some (obj_id x)) (type_id (obj_type x)))],
        f (Some (obj_id x)) (type_id (obj_type x)))
       (''data descriptor'', l)"
  by (simp add: no_override_class_try getattr_via_class_steps_def isdatadescriptor_def
      Let_def)

lemma nondata_probe_instance:
  "\<not> isoverridemethod (attr_getattribute (obj_type x)) \<Longrightarrow>
   mro_lookup (type_mro (obj_type x)) nm = Some (PyObj j (Some f) False False, l) \<Longrightarrow>
   in_own_dict x nm = (t, Inr False) \<Longrightarrow>
   getattr_via_instance_try x nm =
     then_return
       (t @ [InvokeGet j (Some (obj_id x)) (type_id (obj_type x))
               (f (Some (obj_id x)) (type_id (obj_type x)))],
        f (Some (obj_id x)) (type_id (obj_type x)))
       (''non-data descriptor'', l)"
  by (cases "f (Some (obj_id x)) (type_id (obj_type x))")
    (simp_all add: no_override_try getattr_via_instance_steps_def isdatadescriptor_def
      isnondatadescriptor_def Let_def)

lemma nondata_probe_class:
  "\<not> isoverridemethod (attr_getattribute (obj_type x)) \<Longrightarrow>
   mro_lookup (type_mro (obj_type x)) nm = Some (PyObj j (Some f) False False, l) \<Longrightarrow>
   class_walk (obj_mro x) nm (obj_id x) = None \<Longrightarrow>
   getattr_via_class_try x nm =
     then_return
       ([InvokeGet j (Some (obj_id x)) (type_id (obj_type x))
           (f (Some (obj_id x)) (type_id (obj_type x)))],
        f (Some (obj_id x)) (type_id (obj_type x)))
       (''non-data descriptor'', l)"
  by (simp add: no_override_class_try getattr_via_class_steps_def isdatadescriptor_def
      isnondatadescriptor_def Let_def)

lemma step3_passes:
  assumes "(\<forall>k\<in>set m. dict_get (cls_dict k) nm = PyNone)
       \<or> (\<exists>pre c post. m = pre @ c # post
             \<and> (\<forall>k\<in>set pre. dict_get (cls_dict k) nm = PyNone)
             \<and> dict_get (cls_dict c) nm \<noteq> PyNone
             \<and> \<not> isdatadescriptor (dict_get (cls_dict c) nm))"
    and "mro_lookup m nm = Some (a, l)"
  shows "\<not> isdatadescriptor a"
  using assms(1)
proof
  assume "\<forall>k\<in>set m. dict_get (cls_dict k) nm = PyNone"
  with mro_lookup_absent [of m nm] assms(2) show ?thesis by simp
next
  assume "\<exists>pre c post. m = pre @ c # post
             \<and> (\<forall>k\<in>set pre. dict_get (cls_dict k) nm = PyNone)
             \<and> dict_get (cls_dict c) nm \<noteq> PyNone
             \<and> \<not> isdatadescriptor (dict_get (cls_dict c) nm)"
  then obtain pre c post where m: "m = pre @ c # post"
    and pre: "\<forall>k\<in>set pre. dict_get (cls_dict k) nm = PyNone"
    and c: "dict_get (cls_dict c) nm \<noteq> PyNone"
    and nd: "\<not> isdatadescriptor (dict_get (cls_dict c) nm)"
    by blast
  from c obtain i g s d where v: "dict_get (cls_dict c) nm = PyObj i g s d"
    by (cases "dict_get (cls_dict c) nm") auto
  from mro_lookup_first [OF pre v, of post] assms(2) m nd v show ?thesis by simp
qed

lemma own_probe_class:
  assumes noov: "\<not> isoverridemethod (attr_getattribute (obj_type x))"
    and nodata: "\<And>a l. mro_lookup (type_mro (obj_type x)) nm = Some (a, l) \<Longrightarrow>
        \<not> isdatadescriptor a"
    and walk: "class_walk (obj_mro x) nm (obj_id x) = Some p"
  shows "getattr_via_class_try x nm = p"
proof (cases "mro_lookup (type_mro (obj_type x)) nm")
  case None
  with walk show ?thesis
    by (simp add: no_override_class_try [OF noov] getattr_via_class_steps_def Let_def)
next
  case (Some al)
  obtain a l where al: "al = (a, l)" by (cases al)
  with Some nodata [of a l] have "\<not> isdatadescriptor a" by simp
  with Some al walk show ?thesis
    by (simp add: no_override_class_try [OF noov] getattr_via_class_steps_def Let_def)
qed

text \<open>
  C4. In both read algorithms, when a probed hook raises, the result is decided by the
  exception alone: \<^verbatim>\<open>AttributeError\<close> gives the classification of steps 7 and 8
  (\<^verbatim>\<open>attribute\<close> at the type's \<^verbatim>\<open>__getattr__\<close> when it has one, at \<^verbatim>\<open>Not found\<close>
  otherwise), any other exception reaches the caller. The probed hooks are: a user-defined
  \<^verbatim>\<open>__getattribute__\<close> of the type (step 1); the \<^verbatim>\<open>__get__\<close> of a data descriptor found
  in the type's linearization (step 3); the \<^verbatim>\<open>__get__\<close> of a non-data descriptor found
  there, when the test of the instance's dictionary is false, or when no class of the
  class's own linearization has the name (step 5); and, reading through a class when
  step 3 does not decide, the \<^verbatim>\<open>__get__\<close> of the first value found in the class's own
  linearization (step 4).
\<close>

theorem missing_is_caught_other_failures_propagate:
  assumes T: "T = obj_type x"
    and F: "F = (case attr_getattr T of
                   None \<Rightarrow> (''attribute'', ''Not found'')
                 | Some g \<Rightarrow> (''attribute'', type_name T @ ''.'' @ hook_name g))"
  shows
    "(attr_getattribute T = Some h \<and> is_method h \<and> invoke h (obj_id x) nm = Raises e \<longrightarrow>
        getattr_via_instance x nm =
          ([InvokeHook (hook_name h) (obj_id x) nm (Raises e)],
           case e of AttributeError \<Rightarrow> Inr F | OtherError m \<Rightarrow> Inl (OtherError m))
        \<and> getattr_via_class x nm =
          ([InvokeHook (hook_name h) (obj_id x) nm (Raises e)],
           case e of AttributeError \<Rightarrow> Inr F | OtherError m \<Rightarrow> Inl (OtherError m)))
     \<and> (\<not> isoverridemethod (attr_getattribute T)
          \<and> type_mro T = pre @ c # post
          \<and> (\<forall>k\<in>set pre. dict_get (cls_dict k) nm = PyNone)
          \<and> dict_get (cls_dict c) nm = PyObj j (Some f) s d \<and> (s \<or> d)
          \<and> f (Some (obj_id x)) (type_id T) = Raises e \<longrightarrow>
        getattr_via_instance x nm =
          ([InvokeGet j (Some (obj_id x)) (type_id T) (Raises e)],
           case e of AttributeError \<Rightarrow> Inr F | OtherError m \<Rightarrow> Inl (OtherError m))
        \<and> getattr_via_class x nm =
          ([InvokeGet j (Some (obj_id x)) (type_id T) (Raises e)],
           case e of AttributeError \<Rightarrow> Inr F | OtherError m \<Rightarrow> Inl (OtherError m)))
     \<and> (\<not> isoverridemethod (attr_getattribute T)
          \<and> type_mro T = pre @ c # post
          \<and> (\<forall>k\<in>set pre. dict_get (cls_dict k) nm = PyNone)
          \<and> dict_get (cls_dict c) nm = PyObj j (Some f) False False
          \<and> in_own_dict x nm = (t, Inr False)
          \<and> f (Some (obj_id x)) (type_id T) = Raises e \<longrightarrow>
        getattr_via_instance x nm =
          (t @ [InvokeGet j (Some (obj_id x)) (type_id T) (Raises e)],
           case e of AttributeError \<Rightarrow> Inr F | OtherError m \<Rightarrow> Inl (OtherError m)))
     \<and> (\<not> isoverridemethod (attr_getattribute T)
          \<and> type_mro T = pre @ c # post
          \<and> (\<forall>k\<in>set pre. dict_get (cls_dict k) nm = PyNone)
          \<and> dict_get (cls_dict c) nm = PyObj j (Some f) False False
          \<and> (\<forall>k\<in>set (obj_mro x). dict_get (cls_dict k) nm = PyNone)
          \<and> f (Some (obj_id x)) (type_id T) = Raises e \<longrightarrow>
        getattr_via_class x nm =
          ([InvokeGet j (Some (obj_id x)) (type_id T) (Raises e)],
           case e of AttributeError \<Rightarrow> Inr F | OtherError m \<Rightarrow> Inl (OtherError m)))
     \<and> (\<not> isoverridemethod (attr_getattribute T)
          \<and> ((\<forall>k\<in>set (type_mro T). dict_get (cls_dict k) nm = PyNone)
             \<or> (\<exists>pre' c' post'. type_mro T = pre' @ c' # post'
                   \<and> (\<forall>k\<in>set pre'. dict_get (cls_dict k) nm = PyNone)
                   \<and> dict_get (cls_dict c') nm \<noteq> PyNone
                   \<and> \<not> isdatadescriptor (dict_get (cls_dict c') nm)))
          \<and> obj_mro x = pre @ c # post
          \<and> (\<forall>k\<in>set pre. dict_get (cls_dict k) nm = PyNone)
          \<and> dict_get (cls_dict c) nm = PyObj j (Some f) s d
          \<and> f None (obj_id x) = Raises e \<longrightarrow>
        getattr_via_class x nm =
          ([InvokeGet j None (obj_id x) (Raises e)],
           case e of AttributeError \<Rightarrow> Inr F | OtherError m \<Rightarrow> Inl (OtherError m)))"
proof -
  have F': "fallback (obj_type x) = F"
    unfolding F T by (rule fallback_cases)
  have s1: "getattr_via_instance x nm =
          ([InvokeHook (hook_name h) (obj_id x) nm (Raises e)],
           case e of AttributeError \<Rightarrow> Inr F | OtherError m \<Rightarrow> Inl (OtherError m))
        \<and> getattr_via_class x nm =
          ([InvokeHook (hook_name h) (obj_id x) nm (Raises e)],
           case e of AttributeError \<Rightarrow> Inr F | OtherError m \<Rightarrow> Inl (OtherError m))"
    if "attr_getattribute T = Some h" "is_method h" "invoke h (obj_id x) nm = Raises e"
  proof -
    have h: "attr_getattribute (obj_type x) = Some h"
      using that(1) by (simp add: T)
    have i: "getattr_via_instance_try x nm =
        then_return ([InvokeHook (hook_name h) (obj_id x) nm (Raises e)], Raises e)
          (''attribute'', type_name (obj_type x) @ ''.'' @ hook_name h)"
      using override_probe_instance [OF h that(2), of nm] that(3) by simp
    have c: "getattr_via_class_try x nm =
        then_return ([InvokeHook (hook_name h) (obj_id x) nm (Raises e)], Raises e)
          (''attribute'', type_name (obj_type x) @ ''.'' @ hook_name h)"
      using override_probe_class [OF h that(2), of nm] that(3) by simp
    from instance_read_of_failed_probe [OF i, unfolded F']
      class_read_of_failed_probe [OF c, unfolded F']
    show ?thesis by simp
  qed
  have s3: "getattr_via_instance x nm =
          ([InvokeGet j (Some (obj_id x)) (type_id T) (Raises e)],
           case e of AttributeError \<Rightarrow> Inr F | OtherError m \<Rightarrow> Inl (OtherError m))
        \<and> getattr_via_class x nm =
          ([InvokeGet j (Some (obj_id x)) (type_id T) (Raises e)],
           case e of AttributeError \<Rightarrow> Inr F | OtherError m \<Rightarrow> Inl (OtherError m))"
    if "\<not> isoverridemethod (attr_getattribute T)" "type_mro T = pre @ c # post"
      "\<forall>k\<in>set pre. dict_get (cls_dict k) nm = PyNone"
      "dict_get (cls_dict c) nm = PyObj j (Some f) s d" "s \<or> d"
      "f (Some (obj_id x)) (type_id T) = Raises e"
  proof -
    have look: "mro_lookup (type_mro (obj_type x)) nm =
        Some (PyObj j (Some f) s d, cls_name c @ ''.__dict__'')"
      using mro_lookup_first [OF that(3,4), of post] that(2) by (simp add: T)
    have no: "\<not> isoverridemethod (attr_getattribute (obj_type x))"
      using that(1) by (simp add: T)
    have i: "getattr_via_instance_try x nm =
        then_return ([InvokeGet j (Some (obj_id x)) (type_id T) (Raises e)], Raises e)
          (''data descriptor'', cls_name c @ ''.__dict__'')"
      using data_probe_instance [OF no look that(5)] that(6) by (simp add: T)
    have c: "getattr_via_class_try x nm =
        then_return ([InvokeGet j (Some (obj_id x)) (type_id T) (Raises e)], Raises e)
          (''data descriptor'', cls_name c @ ''.__dict__'')"
      using data_probe_class [OF no look that(5)] that(6) by (simp add: T)
    from instance_read_of_failed_probe [OF i, unfolded F']
      class_read_of_failed_probe [OF c, unfolded F']
    show ?thesis by simp
  qed
  have s5i: "getattr_via_instance x nm =
          (t @ [InvokeGet j (Some (obj_id x)) (type_id T) (Raises e)],
           case e of AttributeError \<Rightarrow> Inr F | OtherError m \<Rightarrow> Inl (OtherError m))"
    if "\<not> isoverridemethod (attr_getattribute T)" "type_mro T = pre @ c # post"
      "\<forall>k\<in>set pre. dict_get (cls_dict k) nm = PyNone"
      "dict_get (cls_dict c) nm = PyObj j (Some f) False False"
      "in_own_dict x nm = (t, Inr False)"
      "f (Some (obj_id x)) (type_id T) = Raises e"
  proof -
    have look: "mro_lookup (type_mro (obj_type x)) nm =
        Some (PyObj j (Some f) False False, cls_name c @ ''.__dict__'')"
      using mro_lookup_first [OF that(3,4), of post] that(2) by (simp add: T)
    have no: "\<not> isoverridemethod (attr_getattribute (obj_type x))"
      using that(1) by (simp add: T)
    have i: "getattr_via_instance_try x nm =
        then_return (t @ [InvokeGet j (Some (obj_id x)) (type_id T) (Raises e)], Raises e)
          (''non-data descriptor'', cls_name c @ ''.__dict__'')"
      using nondata_probe_instance [OF no look that(5)] that(6) by (simp add: T)
    from instance_read_of_failed_probe [OF i, unfolded F'] show ?thesis by simp
  qed
  have s5c: "getattr_via_class x nm =
          ([InvokeGet j (Some (obj_id x)) (type_id T) (Raises e)],
           case e of AttributeError \<Rightarrow> Inr F | OtherError m \<Rightarrow> Inl (OtherError m))"
    if "\<not> isoverridemethod (attr_getattribute T)" "type_mro T = pre @ c # post"
      "\<forall>k\<in>set pre. dict_get (cls_dict k) nm = PyNone"
      "dict_get (cls_dict c) nm = PyObj j (Some f) False False"
      "\<forall>k\<in>set (obj_mro x). dict_get (cls_dict k) nm = PyNone"
      "f (Some (obj_id x)) (type_id T) = Raises e"
  proof -
    have look: "mro_lookup (type_mro (obj_type x)) nm =
        Some (PyObj j (Some f) False False, cls_name c @ ''.__dict__'')"
      using mro_lookup_first [OF that(3,4), of post] that(2) by (simp add: T)
    have walk: "class_walk (obj_mro x) nm (obj_id x) = None"
      using that(5) by (rule class_walk_absent)
    have no: "\<not> isoverridemethod (attr_getattribute (obj_type x))"
      using that(1) by (simp add: T)
    have c: "getattr_via_class_try x nm =
        then_return ([InvokeGet j (Some (obj_id x)) (type_id T) (Raises e)], Raises e)
          (''non-data descriptor'', cls_name c @ ''.__dict__'')"
      using nondata_probe_class [OF no look walk] that(6) by (simp add: T)
    from class_read_of_failed_probe [OF c, unfolded F'] show ?thesis by simp
  qed
  have s4: "getattr_via_class x nm =
          ([InvokeGet j None (obj_id x) (Raises e)],
           case e of AttributeError \<Rightarrow> Inr F | OtherError m \<Rightarrow> Inl (OtherError m))"
    if "\<not> isoverridemethod (attr_getattribute T)"
      "(\<forall>k\<in>set (type_mro T). dict_get (cls_dict k) nm = PyNone)
       \<or> (\<exists>pre' c' post'. type_mro T = pre' @ c' # post'
             \<and> (\<forall>k\<in>set pre'. dict_get (cls_dict k) nm = PyNone)
             \<and> dict_get (cls_dict c') nm \<noteq> PyNone
             \<and> \<not> isdatadescriptor (dict_get (cls_dict c') nm))"
      "obj_mro x = pre @ c # post"
      "\<forall>k\<in>set pre. dict_get (cls_dict k) nm = PyNone"
      "dict_get (cls_dict c) nm = PyObj j (Some f) s d"
      "f None (obj_id x) = Raises e"
  proof -
    have walk: "class_walk (obj_mro x) nm (obj_id x) =
        Some (then_return ([InvokeGet j None (obj_id x) (Raises e)], Raises e)
                (''get descriptor'', cls_name c @ ''.__dict__''))"
      using class_walk_first [OF that(4,5), of post "obj_id x"] that(3,6) by simp
    have no: "\<not> isoverridemethod (attr_getattribute (obj_type x))"
      using that(1) by (simp add: T)
    note passes = that(2) [unfolded T]
    have nd: "\<not> isdatadescriptor a"
      if "mro_lookup (type_mro (obj_type x)) nm = Some (a, l)" for a l
      using passes that by (rule step3_passes)
    have "getattr_via_class_try x nm =
        then_return ([InvokeGet j None (obj_id x) (Raises e)], Raises e)
          (''get descriptor'', cls_name c @ ''.__dict__'')"
      by (rule own_probe_class [OF no nd walk])
    from class_read_of_failed_probe [OF this, unfolded F'] show ?thesis
      by simp
  qed
  from s1 s3 s5i s5c s4 show ?thesis by blast
qed

text \<open>
  A metaclass whose \<^verbatim>\<open>__getattribute__\<close> raises \<^verbatim>\<open>AttributeError\<close> and which has a
  \<^verbatim>\<open>__getattr__\<close>; a class whose \<^verbatim>\<open>__getattribute__\<close> raises \<^verbatim>\<open>ValueError\<close>; a data
  descriptor whose \<^verbatim>\<open>__get__\<close> raises \<^verbatim>\<open>AttributeError\<close>; a non-data descriptor that
  does, on a class with a \<^verbatim>\<open>__getattr__\<close>; and a descriptor in the class's own
  dictionary whose \<^verbatim>\<open>__get__\<close> raises \<^verbatim>\<open>ValueError\<close>.
\<close>

theorem missing_is_caught_other_failures_propagate_witness:
  "getattr_via_class
     (class_C (Some (user_method ''__getattribute__'' (Raises AttributeError)))
        (Some (user_method ''__getattr__'' Returns))) ''missing'' =
     ([InvokeHook ''__getattribute__'' 41 ''missing'' (Raises AttributeError)],
      Inr (''attribute'', ''Meta.__getattr__''))
   \<and> getattr_via_instance (inst_d_hooked (Raises (OtherError ''ValueError''))) ''attr'' =
       ([InvokeHook ''__getattribute__'' 31 ''attr'' (Raises (OtherError ''ValueError''))],
        Inl (OtherError ''ValueError''))
   \<and> getattr_via_instance (inst_d (Raises AttributeError)) ''attr'' =
       ([InvokeGet 4 (Some 31) 30 (Raises AttributeError)], Inr (''attribute'', ''Not found''))
   \<and> getattr_via_instance
        (inst_e (Raises AttributeError) (Some (user_method ''__getattr__'' Returns))) ''attr'' =
       ([InvokeGet 6 (Some 51) 50 (Raises AttributeError)],
        Inr (''attribute'', ''E.__getattr__''))
   \<and> getattr_via_class (class_E (Raises (OtherError ''ValueError''))) ''attr'' =
       ([InvokeGet 6 None 50 (Raises (OtherError ''ValueError''))],
        Inl (OtherError ''ValueError''))"
proof -
  let ?C = "class_C (Some (user_method ''__getattribute__'' (Raises AttributeError)))
              (Some (user_method ''__getattr__'' Returns))"
  let ?H = "inst_d_hooked (Raises (OtherError ''ValueError''))"
  let ?D = "inst_d (Raises AttributeError)"
  let ?E = "inst_e (Raises AttributeError) (Some (user_method ''__getattr__'' Returns))"
  let ?K = "class_E (Raises (OtherError ''ValueError''))"
  have none: "\<forall>k\<in>set []. dict_get (cls_dict k) ''attr'' = PyNone"
    by simp
  have c1: "attr_getattribute (obj_type ?C) =
        Some (user_method ''__getattribute__'' (Raises AttributeError))
      \<and> is_method (user_method ''__getattribute__'' (Raises AttributeError))
      \<and> invoke (user_method ''__getattribute__'' (Raises AttributeError)) (obj_id ?C)
          ''missing'' = Raises AttributeError"
    by (simp add: ex_defs)
  have h1: "attr_getattribute (obj_type ?H) =
        Some (user_method ''__getattribute__'' (Raises (OtherError ''ValueError'')))
      \<and> is_method (user_method ''__getattribute__'' (Raises (OtherError ''ValueError'')))
      \<and> invoke (user_method ''__getattribute__'' (Raises (OtherError ''ValueError'')))
          (obj_id ?H) ''attr'' = Raises (OtherError ''ValueError'')"
    by (simp add: ex_defs)
  have d1: "\<not> isoverridemethod (attr_getattribute (obj_type ?D))
      \<and> type_mro (obj_type ?D) = [] @ klass_D (Raises AttributeError) # [object_klass]
      \<and> dict_get (cls_dict (klass_D (Raises AttributeError))) ''attr'' =
          PyObj 4 (Some (\<lambda>a b. Raises AttributeError)) True False
      \<and> (True \<or> False)
      \<and> (\<lambda>a b. Raises AttributeError) (Some (obj_id ?D)) (type_id (obj_type ?D)) =
          Raises AttributeError"
    by (simp add: ex_defs dict_get_def)
  have e1: "\<not> isoverridemethod (attr_getattribute (obj_type ?E))
      \<and> type_mro (obj_type ?E) = [] @ klass_E (Raises AttributeError) # [object_klass]
      \<and> dict_get (cls_dict (klass_E (Raises AttributeError))) ''attr'' =
          PyObj 6 (Some (\<lambda>a b. Raises AttributeError)) False False
      \<and> in_own_dict ?E ''attr'' = ([], Inr False)
      \<and> (\<lambda>a b. Raises AttributeError) (Some (obj_id ?E)) (type_id (obj_type ?E)) =
          Raises AttributeError"
    by (simp add: ex_defs alg_defs)
  have k1: "\<not> isoverridemethod (attr_getattribute (obj_type ?K))
      \<and> (\<forall>k\<in>set (type_mro (obj_type ?K)). dict_get (cls_dict k) ''attr'' = PyNone)
      \<and> obj_mro ?K =
          [] @ \<lparr>cls_name = ''E'',
                cls_dict = [''attr'' \<mapsto> get_descr 6 (Raises (OtherError ''ValueError''))]\<rparr>
             # [object_klass]
      \<and> dict_get (cls_dict \<lparr>cls_name = ''E'',
            cls_dict = [''attr'' \<mapsto> get_descr 6 (Raises (OtherError ''ValueError''))]\<rparr>)
          ''attr'' = PyObj 6 (Some (\<lambda>a b. Raises (OtherError ''ValueError''))) False False
      \<and> (\<lambda>a b. Raises (OtherError ''ValueError'')) None (obj_id ?K) =
          Raises (OtherError ''ValueError'')"
    by (simp add: ex_defs dict_get_def isdatadescriptor_def)
  note probe = missing_is_caught_other_failures_propagate [OF refl refl]
  from probe [of ?C "user_method ''__getattribute__'' (Raises AttributeError)" "''missing''"
      AttributeError] c1
  have r1: "getattr_via_class ?C ''missing'' =
      ([InvokeHook ''__getattribute__'' 41 ''missing'' (Raises AttributeError)],
       Inr (''attribute'', ''Meta.__getattr__''))"
    by (simp add: ex_defs)
  from probe [of ?H "user_method ''__getattribute__'' (Raises (OtherError ''ValueError''))"
      "''attr''" "OtherError ''ValueError''"] h1
  have r2: "getattr_via_instance ?H ''attr'' =
      ([InvokeHook ''__getattribute__'' 31 ''attr'' (Raises (OtherError ''ValueError''))],
       Inl (OtherError ''ValueError''))"
    by (simp add: ex_defs)
  from probe [of ?D _ "''attr''" AttributeError "[]" "klass_D (Raises AttributeError)"
      "[object_klass]" 4 "\<lambda>a b. Raises AttributeError" True False] d1 none
  have r3: "getattr_via_instance ?D ''attr'' =
      ([InvokeGet 4 (Some 31) 30 (Raises AttributeError)], Inr (''attribute'', ''Not found''))"
    by (simp add: ex_defs)
  from probe [of ?E _ "''attr''" AttributeError "[]" "klass_E (Raises AttributeError)"
      "[object_klass]" 6 "\<lambda>a b. Raises AttributeError" _ _ "[]"] e1 none
  have r4: "getattr_via_instance ?E ''attr'' =
      ([InvokeGet 6 (Some 51) 50 (Raises AttributeError)],
       Inr (''attribute'', ''E.__getattr__''))"
    by (simp add: ex_defs)
  from probe [of ?K _ "''attr''" "OtherError ''ValueError''" "[]"
      "\<lparr>cls_name = ''E'',
        cls_dict = [''attr'' \<mapsto> get_descr 6 (Raises (OtherError ''ValueError''))]\<rparr>"
      "[object_klass]" 6 "\<lambda>a b. Raises (OtherError ''ValueError'')" False False] k1 none
  have r5: "getattr_via_class ?K ''attr'' =
      ([InvokeGet 6 None 50 (Raises (OtherError ''ValueError''))],
       Inl (OtherError ''ValueError''))"
    by (simp add: ex_defs)
  from r1 r2 r3 r4 r5 show ?thesis by blast
qed

section \<open>Deleting through an instance\<close>

text \<open>
  C5, as amended. Let the type have no user-defined \<^verbatim>\<open>__delattr__\<close>, and let the first
  class of its linearization whose dictionary gives a value other than \<^verbatim>\<open>None\<close> for the
  name, if there is one, give a value with neither \<^verbatim>\<open>__set__\<close> nor \<^verbatim>\<open>__delete__\<close>.
  Then deleting through the instance is decided by step 3: it reports \<^verbatim>\<open>attribute\<close>,
  at the instance's own dictionary when that dictionary has the name and at
  \<^verbatim>\<open>Not found\<close> when it has not, provided the lookups of \<^verbatim>\<open>__dict__\<close> and \<^verbatim>\<open>__name__\<close> on the instance run no hook
  (the type has no user-defined \<^verbatim>\<open>__getattribute__\<close>, and no \<^verbatim>\<open>__getattr__\<close> or the
  default lookup finds both). When the location is named through \<^verbatim>\<open>__getattr__\<close>, or a
  user-defined \<^verbatim>\<open>__getattribute__\<close> raises on \<^verbatim>\<open>__dict__\<close>, an exception other than
  \<^verbatim>\<open>AttributeError\<close> reaches the caller.
\<close>

theorem delete_falls_through_to_own_dict_or_not_found:
  assumes noov: "\<not> isoverridemethod (attr_delattr (obj_type inst))"
    and first: "(\<forall>k\<in>set (type_mro (obj_type inst)). dict_get (cls_dict k) nm = PyNone)
       \<or> (\<exists>pre c post. type_mro (obj_type inst) = pre @ c # post
             \<and> (\<forall>k\<in>set pre. dict_get (cls_dict k) nm = PyNone)
             \<and> dict_get (cls_dict c) nm \<noteq> PyNone
             \<and> \<not> issetdescriptor (dict_get (cls_dict c) nm))"
  shows "delattr_via_instance inst nm =
           bind_traced (in_own_dict inst nm)
             (\<lambda>own. if own then own_location inst
                     else ([], Inr (''attribute'', ''Not found'')))
       \<and> (\<not> isoverridemethod (attr_getattribute (obj_type inst))
            \<and> obj_dict inst = Some dct \<and> nm \<in> dom dct
            \<and> (obj_name inst \<noteq> None \<or> attr_getattr (obj_type inst) = None) \<longrightarrow>
          delattr_via_instance inst nm =
            ([], Inr (''attribute'', or_instance (obj_name inst) @ ''.__dict__'')))
       \<and> (\<not> isoverridemethod (attr_getattribute (obj_type inst))
            \<and> obj_dict inst = Some dct \<and> nm \<notin> dom dct \<longrightarrow>
          delattr_via_instance inst nm = ([], Inr (''attribute'', ''Not found'')))
       \<and> (\<not> isoverridemethod (attr_getattribute (obj_type inst))
            \<and> obj_dict inst = None \<and> attr_getattr (obj_type inst) = None \<longrightarrow>
          delattr_via_instance inst nm = ([], Inr (''attribute'', ''Not found'')))
       \<and> (\<not> isoverridemethod (attr_getattribute (obj_type inst))
            \<and> obj_dict inst = Some dct \<and> nm \<in> dom dct
            \<and> obj_name inst = None \<and> attr_getattr (obj_type inst) = Some g \<longrightarrow>
          delattr_via_instance inst nm =
            ([InvokeHook (hook_name g) (obj_id inst) ''__name__''
                (invoke g (obj_id inst) ''__name__'')],
             case invoke g (obj_id inst) ''__name__'' of
               Returns \<Rightarrow>
                 Inr (''attribute'', or_instance (reply_name g (obj_id inst)) @ ''.__dict__'')
             | Raises AttributeError \<Rightarrow> Inr (''attribute'', ''instance.__dict__'')
             | Raises (OtherError m) \<Rightarrow> Inl (OtherError m)))
       \<and> (attr_getattribute (obj_type inst) = Some h \<and> is_method h
            \<and> invoke h (obj_id inst) ''__dict__'' = Raises (OtherError m) \<longrightarrow>
          delattr_via_instance inst nm =
            ([InvokeHook (hook_name h) (obj_id inst) ''__dict__'' (Raises (OtherError m))],
             Inl (OtherError m)))"
proof -
  let ?T = "obj_type inst"
  have walk: "set_walk (type_mro ?T) nm = None"
    using first
  proof
    assume "\<forall>k\<in>set (type_mro ?T). dict_get (cls_dict k) nm = PyNone"
    then show ?thesis by (rule set_walk_absent)
  next
    assume "\<exists>pre c post. type_mro ?T = pre @ c # post
             \<and> (\<forall>k\<in>set pre. dict_get (cls_dict k) nm = PyNone)
             \<and> dict_get (cls_dict c) nm \<noteq> PyNone
             \<and> \<not> issetdescriptor (dict_get (cls_dict c) nm)"
    then obtain pre c post where mro: "type_mro ?T = pre @ c # post"
      and pre: "\<forall>k\<in>set pre. dict_get (cls_dict k) nm = PyNone"
      and c: "dict_get (cls_dict c) nm \<noteq> PyNone"
      and ns: "\<not> issetdescriptor (dict_get (cls_dict c) nm)"
      by blast
    from c obtain i g s d where v: "dict_get (cls_dict c) nm = PyObj i g s d"
      by (cases "dict_get (cls_dict c) nm") auto
    from ns v have "\<not> (s \<or> d)" by simp
    with set_walk_first [OF pre v, of post] mro show ?thesis by simp
  qed
  have step3: "delattr_via_instance inst nm =
      bind_traced (in_own_dict inst nm)
        (\<lambda>own. if own then own_location inst else ([], Inr (''attribute'', ''Not found'')))"
    using noov walk by (simp add: delattr_via_instance_def override_info_none)
  have a: "delattr_via_instance inst nm =
      ([], Inr (''attribute'', or_instance (obj_name inst) @ ''.__dict__''))"
    if "\<not> isoverridemethod (attr_getattribute ?T)" "obj_dict inst = Some dct" "nm \<in> dom dct"
      "obj_name inst \<noteq> None \<or> attr_getattr ?T = None"
    using in_own_dict_plain [OF that(1,2), of nm] own_location_plain [OF that(1,4)] that(3)
    by (simp add: step3)
  have b: "delattr_via_instance inst nm = ([], Inr (''attribute'', ''Not found''))"
    if "\<not> isoverridemethod (attr_getattribute ?T)" "obj_dict inst = Some dct" "nm \<notin> dom dct"
    using in_own_dict_plain [OF that(1,2), of nm] that(3) by (simp add: step3)
  have c: "delattr_via_instance inst nm = ([], Inr (''attribute'', ''Not found''))"
    if "\<not> isoverridemethod (attr_getattribute ?T)" "obj_dict inst = None"
      "attr_getattr ?T = None"
    using in_own_dict_no_dict [OF that, of nm] by (simp add: step3)
  have d: "delattr_via_instance inst nm =
      ([InvokeHook (hook_name g) (obj_id inst) ''__name__''
          (invoke g (obj_id inst) ''__name__'')],
       case invoke g (obj_id inst) ''__name__'' of
         Returns \<Rightarrow>
           Inr (''attribute'', or_instance (reply_name g (obj_id inst)) @ ''.__dict__'')
       | Raises AttributeError \<Rightarrow> Inr (''attribute'', ''instance.__dict__'')
       | Raises (OtherError m) \<Rightarrow> Inl (OtherError m))"
    if "\<not> isoverridemethod (attr_getattribute ?T)" "obj_dict inst = Some dct" "nm \<in> dom dct"
      "obj_name inst = None" "attr_getattr ?T = Some g"
    using in_own_dict_plain [OF that(1,2), of nm] own_location_fallback [OF that(1,4,5)] that(3)
    by (simp add: step3)
  have e: "delattr_via_instance inst nm =
      ([InvokeHook (hook_name h) (obj_id inst) ''__dict__'' (Raises (OtherError m))],
       Inl (OtherError m))"
    if "attr_getattribute ?T = Some h" "is_method h"
      "invoke h (obj_id inst) ''__dict__'' = Raises (OtherError m)"
    using builtin_getattr_override_fails
        [OF that, of "obj_dict inst" "\<lambda>h. reply_dict h (obj_id inst)"]
    by (simp add: step3 in_own_dict_def)
  from step3 a b c d e show ?thesis by blast
qed

text \<open>
  The instances of the two doctests; an instance whose class has a \<^verbatim>\<open>__getattr__\<close> that
  raises \<^verbatim>\<open>KeyError\<close>; and one whose class has a \<^verbatim>\<open>__getattribute__\<close> that does.
\<close>

theorem delete_falls_through_to_own_dict_or_not_found_witness:
  "delattr_via_instance inst_a ''attr'' = ([], Inr (''attribute'', ''Not found''))
   \<and> delattr_via_instance inst_b ''attr'' = ([], Inr (''attribute'', ''instance.__dict__''))
   \<and> delattr_via_instance inst_b ''missing'' = ([], Inr (''attribute'', ''Not found''))
   \<and> delattr_via_instance
        (inst_k (user_method ''__getattr__'' (Raises (OtherError ''KeyError'')))) ''attr'' =
       ([InvokeHook ''__getattr__'' 22 ''__name__'' (Raises (OtherError ''KeyError''))],
        Inl (OtherError ''KeyError''))
   \<and> delattr_via_instance (inst_b_hooked (Raises (OtherError ''KeyError''))) ''attr'' =
       ([InvokeHook ''__getattribute__'' 21 ''__dict__'' (Raises (OtherError ''KeyError''))],
        Inl (OtherError ''KeyError''))"
proof -
  let ?k = "inst_k (user_method ''__getattr__'' (Raises (OtherError ''KeyError'')))"
  let ?h = "inst_b_hooked (Raises (OtherError ''KeyError''))"
  have found: "\<And>x t. type_mro (obj_type x) = [] @ t # [object_klass] \<Longrightarrow>
      dict_get (cls_dict t) ''attr'' \<noteq> PyNone \<Longrightarrow>
      \<not> issetdescriptor (dict_get (cls_dict t) ''attr'') \<Longrightarrow>
      (\<forall>k\<in>set (type_mro (obj_type x)). dict_get (cls_dict k) ''attr'' = PyNone)
       \<or> (\<exists>pre c post. type_mro (obj_type x) = pre @ c # post
             \<and> (\<forall>k\<in>set pre. dict_get (cls_dict k) ''attr'' = PyNone)
             \<and> dict_get (cls_dict c) ''attr'' \<noteq> PyNone
             \<and> \<not> issetdescriptor (dict_get (cls_dict c) ''attr''))"
    by (rule disjI2, rule exI [of _ "[]"]) auto
  have a1: "\<not> isoverridemethod (attr_delattr (obj_type inst_a))"
    and a_mro: "type_mro (obj_type inst_a) = [] @ klass_A # [object_klass]"
    and a_v: "dict_get (cls_dict klass_A) ''attr'' \<noteq> PyNone"
      "\<not> issetdescriptor (dict_get (cls_dict klass_A) ''attr'')"
    and a3: "\<not> isoverridemethod (attr_getattribute (obj_type inst_a))
        \<and> obj_dict inst_a = Some Map.empty \<and> ''attr'' \<notin> dom (Map.empty :: string \<rightharpoonup> pyobj)"
    by (simp_all add: ex_defs dict_get_def)
  have b_v: "dict_get (cls_dict klass_B) ''attr'' \<noteq> PyNone"
      "\<not> issetdescriptor (dict_get (cls_dict klass_B) ''attr'')"
    by (simp_all add: ex_defs dict_get_def)
  have b1: "\<not> isoverridemethod (attr_delattr (obj_type inst_b))"
    and b_mro: "type_mro (obj_type inst_b) = [] @ klass_B # [object_klass]"
    and b3: "\<not> isoverridemethod (attr_getattribute (obj_type inst_b))
        \<and> obj_dict inst_b = Some [''attr'' \<mapsto> get_descr 3 Returns]
        \<and> ''attr'' \<in> dom [''attr'' \<mapsto> get_descr 3 Returns]
        \<and> (obj_name inst_b \<noteq> None \<or> attr_getattr (obj_type inst_b) = None)"
    and b4: "\<not> isoverridemethod (attr_getattribute (obj_type inst_b))
        \<and> obj_dict inst_b = Some [''attr'' \<mapsto> get_descr 3 Returns]
        \<and> ''missing'' \<notin> dom [''attr'' \<mapsto> get_descr 3 Returns]"
    by (simp_all add: ex_defs)
  have b5: "(\<forall>k\<in>set (type_mro (obj_type inst_b)). dict_get (cls_dict k) ''missing'' = PyNone)
       \<or> (\<exists>pre c post. type_mro (obj_type inst_b) = pre @ c # post
             \<and> (\<forall>k\<in>set pre. dict_get (cls_dict k) ''missing'' = PyNone)
             \<and> dict_get (cls_dict c) ''missing'' \<noteq> PyNone
             \<and> \<not> issetdescriptor (dict_get (cls_dict c) ''missing''))"
    by (rule disjI1) (simp add: ex_defs dict_get_def)
  have k1: "\<not> isoverridemethod (attr_delattr (obj_type ?k))"
    and k_mro: "type_mro (obj_type ?k) = [] @ klass_B # [object_klass]"
    and k3: "\<not> isoverridemethod (attr_getattribute (obj_type ?k))
        \<and> obj_dict ?k = Some [''attr'' \<mapsto> get_descr 3 Returns]
        \<and> ''attr'' \<in> dom [''attr'' \<mapsto> get_descr 3 Returns]
        \<and> obj_name ?k = None
        \<and> attr_getattr (obj_type ?k) =
            Some (user_method ''__getattr__'' (Raises (OtherError ''KeyError'')))"
    by (simp_all add: ex_defs)
  have h1: "\<not> isoverridemethod (attr_delattr (obj_type ?h))"
    and h_mro: "type_mro (obj_type ?h) = [] @ klass_B # [object_klass]"
    and h3: "attr_getattribute (obj_type ?h) =
          Some (user_method ''__getattribute__'' (Raises (OtherError ''KeyError'')))
        \<and> is_method (user_method ''__getattribute__'' (Raises (OtherError ''KeyError'')))
        \<and> invoke (user_method ''__getattribute__'' (Raises (OtherError ''KeyError'')))
            (obj_id ?h) ''__dict__'' = Raises (OtherError ''KeyError'')"
    by (simp_all add: ex_defs)
  from delete_falls_through_to_own_dict_or_not_found
         [OF a1 found [OF a_mro a_v], THEN conjunct2] a3
  have r1: "delattr_via_instance inst_a ''attr'' = ([], Inr (''attribute'', ''Not found''))"
    by blast
  from delete_falls_through_to_own_dict_or_not_found
         [OF b1 found [OF b_mro b_v], THEN conjunct2] b3
  have r2: "delattr_via_instance inst_b ''attr'' =
      ([], Inr (''attribute'', or_instance (obj_name inst_b) @ ''.__dict__''))"
    by blast
  from delete_falls_through_to_own_dict_or_not_found [OF b1 b5, THEN conjunct2] b4
  have r3: "delattr_via_instance inst_b ''missing'' = ([], Inr (''attribute'', ''Not found''))"
    by blast
  from delete_falls_through_to_own_dict_or_not_found
         [OF k1 found [OF k_mro b_v], THEN conjunct2] k3
  have r4: "delattr_via_instance ?k ''attr'' =
      ([InvokeHook ''__getattr__'' 22 ''__name__'' (Raises (OtherError ''KeyError''))],
       Inl (OtherError ''KeyError''))"
    by (simp add: ex_defs)
  from delete_falls_through_to_own_dict_or_not_found
         [OF h1 found [OF h_mro b_v], THEN conjunct2] h3
  have r5: "delattr_via_instance ?h ''attr'' =
      ([InvokeHook ''__getattribute__'' 21 ''__dict__'' (Raises (OtherError ''KeyError''))],
       Inl (OtherError ''KeyError''))"
    by (simp add: ex_defs)
  from r1 r2 r3 r4 r5 show ?thesis by (simp add: ex_defs)
qed

text \<open>
  The instance of the first doctest has an empty dictionary: deleting \<^verbatim>\<open>attr\<close> reports
  \<^verbatim>\<open>Not found\<close>, not the instance's dictionary. And a class that binds the name to
  \<^verbatim>\<open>None\<close> does not stop the walk, which goes on to the data descriptor of its base.
\<close>

theorem delete_falls_through_counterexample:
  "\<not> isoverridemethod (attr_delattr (obj_type inst_a))
   \<and> type_mro (obj_type inst_a) = [klass_A, object_klass]
   \<and> cls_dict klass_A ''attr'' = Some (plain_value 1)
   \<and> \<not> issetdescriptor (plain_value 1)
   \<and> delattr_via_instance inst_a ''attr'' = ([], Inr (''attribute'', ''Not found''))
   \<and> \<not> isoverridemethod (attr_delattr (obj_type inst_n))
   \<and> type_mro (obj_type inst_n) = [klass_N, klass_D Returns, object_klass]
   \<and> cls_dict klass_N ''attr'' = Some PyNone
   \<and> \<not> issetdescriptor PyNone
   \<and> delattr_via_instance inst_n ''attr'' = ([], Inr (''set descriptor'', ''D.__dict__''))"
  by (simp add: ex_defs alg_defs)

section \<open>The override hooks of write and delete\<close>

text \<open>
  C6. When \<^verbatim>\<open>getattr(type(I), '__setattr__', None)\<close> is a user-defined method, writing
  through the instance reports \<^verbatim>\<open>attribute\<close> at the type's name followed by the hook's
  name, and the result is the same for every linearization and every own dictionary; and
  likewise for \<^verbatim>\<open>__delattr__\<close> and deleting.
\<close>

theorem override_hook_short_circuits:
  "(attr_setattr (obj_type inst) = Some h \<and> is_method h \<longrightarrow>
      setattr_via_instance inst nm =
        ([], Inr (''attribute'', type_name (obj_type inst) @ ''.'' @ hook_name h))
      \<and> setattr_via_instance
          (inst\<lparr>obj_dict := od, obj_type := (obj_type inst)\<lparr>type_mro := m\<rparr>\<rparr>) nm =
        setattr_via_instance inst nm)
   \<and> (attr_delattr (obj_type inst) = Some h \<and> is_method h \<longrightarrow>
      delattr_via_instance inst nm =
        ([], Inr (''attribute'', type_name (obj_type inst) @ ''.'' @ hook_name h))
      \<and> delattr_via_instance
          (inst\<lparr>obj_dict := od, obj_type := (obj_type inst)\<lparr>type_mro := m\<rparr>\<rparr>) nm =
        delattr_via_instance inst nm)"
  by (simp add: setattr_via_instance_def delattr_via_instance_def override_info_some)

text \<open>The class of the example has a data descriptor for the name, which step 2 would report.\<close>

theorem override_hook_short_circuits_witness:
  "setattr_via_instance (inst_d_hooked Returns) ''attr'' =
     ([], Inr (''attribute'', ''D.__setattr__''))
   \<and> delattr_via_instance (inst_d_hooked Returns) ''attr'' =
       ([], Inr (''attribute'', ''D.__delattr__''))
   \<and> set_walk (type_mro (obj_type (inst_d_hooked Returns))) ''attr'' =
       Some (''set descriptor'', ''D.__dict__'')"
proof -
  have s: "attr_setattr (obj_type (inst_d_hooked Returns)) = Some (user_method ''__setattr__'' Returns)"
    by (simp add: ex_defs)
  have d: "attr_delattr (obj_type (inst_d_hooked Returns)) = Some (user_method ''__delattr__'' Returns)"
    by (simp add: ex_defs)
  have ms: "is_method (user_method ''__setattr__'' Returns)"
    by (simp add: ex_defs)
  have md: "is_method (user_method ''__delattr__'' Returns)"
    by (simp add: ex_defs)
  have w: "set_walk (type_mro (obj_type (inst_d_hooked Returns))) ''attr'' =
       Some (''set descriptor'', ''D.__dict__'')"
    by (simp add: ex_defs dict_get_def)
  from override_hook_short_circuits
         [of "inst_d_hooked Returns" "user_method ''__setattr__'' Returns" "''attr''"] s ms
  have r1: "setattr_via_instance (inst_d_hooked Returns) ''attr'' =
      ([], Inr (''attribute'', type_name (obj_type (inst_d_hooked Returns)) @ ''.'' @
         hook_name (user_method ''__setattr__'' Returns)))"
    by blast
  from override_hook_short_circuits
         [of "inst_d_hooked Returns" "user_method ''__delattr__'' Returns" "''attr''"] d md
  have r2: "delattr_via_instance (inst_d_hooked Returns) ''attr'' =
      ([], Inr (''attribute'', type_name (obj_type (inst_d_hooked Returns)) @ ''.'' @
         hook_name (user_method ''__delattr__'' Returns)))"
    by blast
  from r1 r2 w show ?thesis by (simp add: ex_defs)
qed

section \<open>Classes as targets\<close>

lemma fst_except: "fst (except_AttributeError p t) = fst p"
  by (cases "(p, t)" rule: except_AttributeError.cases) simp_all

lemma fst_then_return: "fst (then_return (t, out) r) = t"
  by (cases out) simp_all

lemma read_same_when_try_same:
  "getattr_via_class_try cls nm = getattr_via_instance_try cls nm \<Longrightarrow>
   getattr_via_class cls nm = getattr_via_instance cls nm"
  by (simp add: getattr_via_class_def getattr_via_instance_def)

lemma read_same_when_overridden:
  "isoverridemethod (attr_getattribute (obj_type cls)) \<Longrightarrow>
   getattr_via_class cls nm = getattr_via_instance cls nm"
  by (rule read_same_when_try_same)
    (auto simp: getattr_via_class_try_def getattr_via_instance_try_def split: option.splits)

lemma steps_same_when_step4_same:
  assumes "\<And>attr location. mro_lookup (type_mro (obj_type cls)) nm = Some (attr, location) \<Longrightarrow>
             \<not> isdatadescriptor attr \<Longrightarrow>
             (case class_walk (obj_mro cls) nm (obj_id cls) of
                Some r \<Rightarrow> r
              | None \<Rightarrow>
                  if isnondatadescriptor attr then
                    then_return
                      (call_get attr (Some (obj_id cls)) (type_id (obj_type cls)))
                      (''non-data descriptor'', location)
                  else ([], Inr (''attribute'', location))) =
             bind_traced (in_own_dict cls nm)
               (\<lambda>own.
                  if own then own_location cls
                  else if isnondatadescriptor attr then
                    then_return
                      (call_get attr (Some (obj_id cls)) (type_id (obj_type cls)))
                      (''non-data descriptor'', location)
                  else ([], Inr (''attribute'', location)))"
    and "mro_lookup (type_mro (obj_type cls)) nm = None \<Longrightarrow>
           (case class_walk (obj_mro cls) nm (obj_id cls) of
              Some r \<Rightarrow> r
            | None \<Rightarrow> ([], Inl AttributeError)) =
           bind_traced (in_own_dict cls nm)
             (\<lambda>own. if own then own_location cls else ([], Inl AttributeError))"
  shows "getattr_via_class_steps cls nm = getattr_via_instance_steps cls nm"
proof (cases "mro_lookup (type_mro (obj_type cls)) nm")
  case None
  with assms(2) show ?thesis
    by (simp add: getattr_via_class_steps_def getattr_via_instance_steps_def Let_def)
next
  case (Some al)
  obtain attr location where al: "al = (attr, location)" by (cases al)
  show ?thesis
  proof (cases "isdatadescriptor attr")
    case True
    with Some al show ?thesis
      by (simp add: getattr_via_class_steps_def getattr_via_instance_steps_def Let_def)
  next
    case False
    with Some al assms(1) [of attr location] show ?thesis
      by (simp add: getattr_via_class_steps_def getattr_via_instance_steps_def Let_def)
  qed
qed

lemma read_same_when_step3_decides:
  assumes look: "mro_lookup (type_mro (obj_type cls)) nm = Some (attr, location)"
    and dd: "isdatadescriptor attr"
  shows "getattr_via_class cls nm = getattr_via_instance cls nm"
proof -
  have "getattr_via_class_steps cls nm = getattr_via_instance_steps cls nm"
    using look dd
    by (simp add: getattr_via_class_steps_def getattr_via_instance_steps_def Let_def)
  then show ?thesis
    by (simp add: read_same_when_try_same try_same_when_steps_same)
qed

lemma read_same_when_step4_finds_nothing:
  assumes none: "\<forall>k\<in>set (obj_mro cls). dict_get (cls_dict k) nm = PyNone"
    and own: "obj_dict cls = Some dk" "nm \<notin> dom dk"
  shows "getattr_via_class cls nm = getattr_via_instance cls nm"
proof (cases "isoverridemethod (attr_getattribute (obj_type cls))")
  case True
  then show ?thesis by (rule read_same_when_overridden)
next
  case False
  have walk: "class_walk (obj_mro cls) nm (obj_id cls) = None"
    using none by (rule class_walk_absent)
  have inown: "in_own_dict cls nm = ([], Inr False)"
    using in_own_dict_plain [OF False own(1), of nm] own(2) by simp
  have "getattr_via_class_steps cls nm = getattr_via_instance_steps cls nm"
    by (rule steps_same_when_step4_same) (simp_all add: walk inown)
  then show ?thesis
    by (simp add: read_same_when_try_same try_same_when_steps_same)
qed

lemma read_same_on_plain_own_attribute:
  assumes mro: "obj_mro cls = k # rest"
    and own: "obj_dict cls = Some (cls_dict k)"
    and name: "obj_name cls = Some (cls_name k)" "cls_name k \<noteq> []"
    and val: "dict_get (cls_dict k) nm = PyObj i None s d"
  shows "getattr_via_class cls nm = getattr_via_instance cls nm"
proof (cases "isoverridemethod (attr_getattribute (obj_type cls))")
  case True
  then show ?thesis by (rule read_same_when_overridden)
next
  case False
  have walk: "class_walk (obj_mro cls) nm (obj_id cls) =
      Some ([], Inr (''attribute'', cls_name k @ ''.__dict__''))"
    using val by (simp add: mro)
  have "nm \<in> dom (cls_dict k)"
    using val by (auto simp: dict_get_def split: option.splits)
  then have inown: "in_own_dict cls nm = ([], Inr True)"
    using in_own_dict_plain [OF False own, of nm] by simp
  have loc: "own_location cls = ([], Inr (''attribute'', cls_name k @ ''.__dict__''))"
    using own_location_plain [OF False, of] name by simp
  have "getattr_via_class_steps cls nm = getattr_via_instance_steps cls nm"
    by (rule steps_same_when_step4_same) (simp_all add: walk inown loc)
  then show ?thesis
    by (simp add: read_same_when_try_same try_same_when_steps_same)
qed

lemma read_differs_on_own_get_descriptor:
  assumes noov: "\<not> isoverridemethod (attr_getattribute (obj_type cls))"
    and nodata: "\<forall>k\<in>set (type_mro (obj_type cls)).
        \<not> isdatadescriptor (dict_get (cls_dict k) nm)"
    and mro: "obj_mro cls = k # rest"
    and own: "obj_dict cls = Some (cls_dict k)"
    and name: "obj_name cls \<noteq> None"
    and val: "dict_get (cls_dict k) nm = PyObj i (Some f) s d"
  shows "fst (getattr_via_class cls nm) = [InvokeGet i None (obj_id cls) (f None (obj_id cls))]"
    and "fst (getattr_via_instance cls nm) = []"
proof -
  have walk: "class_walk (obj_mro cls) nm (obj_id cls) =
      Some (then_return
              ([InvokeGet i None (obj_id cls) (f None (obj_id cls))], f None (obj_id cls))
              (''get descriptor'', cls_name k @ ''.__dict__''))"
    using val by (simp add: mro)
  have "getattr_via_class_try cls nm =
      then_return ([InvokeGet i None (obj_id cls) (f None (obj_id cls))], f None (obj_id cls))
        (''get descriptor'', cls_name k @ ''.__dict__'')"
  proof (rule own_probe_class [OF noov _ walk])
    fix a l
    assume "mro_lookup (type_mro (obj_type cls)) nm = Some (a, l)"
    with mro_lookup_in [of "type_mro (obj_type cls)" nm a l] nodata
    show "\<not> isdatadescriptor a" by auto
  qed
  then show "fst (getattr_via_class cls nm) =
      [InvokeGet i None (obj_id cls) (f None (obj_id cls))]"
    by (simp add: getattr_via_class_def fst_except fst_then_return)
  have "nm \<in> dom (cls_dict k)"
    using val by (auto simp: dict_get_def split: option.splits)
  then have inown: "in_own_dict cls nm = ([], Inr True)"
    using in_own_dict_plain [OF noov own, of nm] by simp
  have loc: "own_location cls =
      ([], Inr (''attribute'', or_instance (obj_name cls) @ ''.__dict__''))"
    using own_location_plain [OF noov] name by simp
  have "getattr_via_instance_try cls nm =
      ([], Inr (''attribute'', or_instance (obj_name cls) @ ''.__dict__''))"
  proof (cases "mro_lookup (type_mro (obj_type cls)) nm")
    case None
    then show ?thesis
      by (simp add: no_override_try [OF noov] getattr_via_instance_steps_def Let_def inown loc)
  next
    case (Some al)
    obtain a l where al: "al = (a, l)" by (cases al)
    with Some mro_lookup_in [of "type_mro (obj_type cls)" nm a l] nodata
    have "\<not> isdatadescriptor a" by auto
    with Some al show ?thesis
      by (simp add: no_override_try [OF noov] getattr_via_instance_steps_def Let_def inown loc)
  qed
  then show "fst (getattr_via_instance cls nm) = []"
    by (simp add: getattr_via_instance_def)
qed

text \<open>
  C7, as amended. Writing and deleting through a class are the instance algorithms applied
  to the class; with no hook in play the location written to is the class's own
  dictionary. Reading through a class is the instance algorithm applied to the class
  except in step 4. The two give the same result when step 1 decides (a user-defined
  \<^verbatim>\<open>__getattribute__\<close> of the metaclass), when step 3 decides (a data descriptor in the
  metaclass's linearization), when step 4 finds nothing either way, and when the class's
  own dictionary binds the name to a value without \<^verbatim>\<open>__get__\<close>. They differ when steps
  1 and 3 do not decide and the class's own dictionary binds the name to a value with
  \<^verbatim>\<open>__get__\<close>: the class algorithm calls it on \<^verbatim>\<open>(None, C)\<close>, the instance algorithm
  calls nothing.
\<close>

theorem class_target_reuses_instance_algorithms:
  "setattr_via_class cls nm = setattr_via_instance cls nm
   \<and> delattr_via_class cls nm = delattr_via_instance cls nm
   \<and> (\<not> isoverridemethod (attr_setattr (obj_type cls))
        \<and> \<not> isoverridemethod (attr_getattribute (obj_type cls))
        \<and> (\<forall>k\<in>set (type_mro (obj_type cls)). dict_get (cls_dict k) nm = PyNone)
        \<and> obj_name cls = Some n \<and> n \<noteq> [] \<longrightarrow>
      setattr_via_class cls nm = ([], Inr (''attribute'', n @ ''.__dict__'')))
   \<and> (isoverridemethod (attr_getattribute (obj_type cls)) \<longrightarrow>
      getattr_via_class cls nm = getattr_via_instance cls nm)
   \<and> (type_mro (obj_type cls) = pre @ c # post
        \<and> (\<forall>k\<in>set pre. dict_get (cls_dict k) nm = PyNone)
        \<and> dict_get (cls_dict c) nm = PyObj j (Some g) s d \<and> (s \<or> d) \<longrightarrow>
      getattr_via_class cls nm = getattr_via_instance cls nm)
   \<and> ((\<forall>k\<in>set (obj_mro cls). dict_get (cls_dict k) nm = PyNone)
        \<and> obj_dict cls = Some dk \<and> nm \<notin> dom dk \<longrightarrow>
      getattr_via_class cls nm = getattr_via_instance cls nm)
   \<and> (obj_mro cls = k # rest \<and> obj_dict cls = Some (cls_dict k)
        \<and> obj_name cls = Some (cls_name k) \<and> cls_name k \<noteq> []
        \<and> dict_get (cls_dict k) nm = PyObj i None s' d' \<longrightarrow>
      getattr_via_class cls nm = getattr_via_instance cls nm)
   \<and> (\<not> isoverridemethod (attr_getattribute (obj_type cls))
        \<and> (\<forall>k\<in>set (type_mro (obj_type cls)).
              \<not> isdatadescriptor (dict_get (cls_dict k) nm))
        \<and> obj_mro cls = k # rest \<and> obj_dict cls = Some (cls_dict k)
        \<and> obj_name cls \<noteq> None
        \<and> dict_get (cls_dict k) nm = PyObj i (Some f) s' d' \<longrightarrow>
      fst (getattr_via_class cls nm) = [InvokeGet i None (obj_id cls) (f None (obj_id cls))]
      \<and> fst (getattr_via_instance cls nm) = []
      \<and> getattr_via_class cls nm \<noteq> getattr_via_instance cls nm)"
proof -
  have wr: "setattr_via_class cls nm = ([], Inr (''attribute'', n @ ''.__dict__''))"
    if "\<not> isoverridemethod (attr_setattr (obj_type cls))"
      "\<not> isoverridemethod (attr_getattribute (obj_type cls))"
      "\<forall>k\<in>set (type_mro (obj_type cls)). dict_get (cls_dict k) nm = PyNone"
      "obj_name cls = Some n" "n \<noteq> []"
    using that(1,4,5) set_walk_absent [OF that(3)] own_location_plain [OF that(2), of]
    by (simp add: setattr_via_class_def setattr_via_instance_def override_info_none)
  have b: "getattr_via_class cls nm = getattr_via_instance cls nm"
    if "type_mro (obj_type cls) = pre @ c # post"
      "\<forall>k\<in>set pre. dict_get (cls_dict k) nm = PyNone"
      "dict_get (cls_dict c) nm = PyObj j (Some g) s d" "s \<or> d"
  proof -
    have "mro_lookup (type_mro (obj_type cls)) nm =
        Some (PyObj j (Some g) s d, cls_name c @ ''.__dict__'')"
      using mro_lookup_first [OF that(2,3), of post] that(1) by simp
    moreover have "isdatadescriptor (PyObj j (Some g) s d)"
      using that(4) by (simp add: isdatadescriptor_def)
    ultimately show ?thesis by (rule read_same_when_step3_decides)
  qed
  have e: "fst (getattr_via_class cls nm) =
        [InvokeGet i None (obj_id cls) (f None (obj_id cls))]
      \<and> fst (getattr_via_instance cls nm) = []
      \<and> getattr_via_class cls nm \<noteq> getattr_via_instance cls nm"
    if "\<not> isoverridemethod (attr_getattribute (obj_type cls))"
      "\<forall>k\<in>set (type_mro (obj_type cls)). \<not> isdatadescriptor (dict_get (cls_dict k) nm)"
      "obj_mro cls = k # rest" "obj_dict cls = Some (cls_dict k)" "obj_name cls \<noteq> None"
      "dict_get (cls_dict k) nm = PyObj i (Some f) s' d'"
    using read_differs_on_own_get_descriptor [OF that] by auto
  from wr b e read_same_when_overridden [of cls nm]
    read_same_when_step4_finds_nothing [of cls nm dk]
    read_same_on_plain_own_attribute [of cls k rest nm i s' d']
  show ?thesis
    by (simp add: setattr_via_class_def delattr_via_class_def)
qed

text \<open>
  The class of the first doctest, whose \<^verbatim>\<open>attr\<close> is a string; a class whose metaclass
  has a user-defined \<^verbatim>\<open>__getattribute__\<close>; a class whose metaclass has a data descriptor
  for the name; a name that no class has; and the class of the second doctest, where the
  two read algorithms differ.
\<close>

theorem class_target_reuses_instance_algorithms_witness:
  "getattr_via_class class_A ''attr'' = ([], Inr (''attribute'', ''A.__dict__''))
   \<and> getattr_via_instance class_A ''attr'' = ([], Inr (''attribute'', ''A.__dict__''))
   \<and> setattr_via_class class_A ''attr'' = ([], Inr (''attribute'', ''A.__dict__''))
   \<and> getattr_via_instance (class_C (Some (user_method ''__getattribute__'' Returns)) None)
        ''attr'' =
       ([InvokeHook ''__getattribute__'' 41 ''attr'' Returns],
        Inr (''attribute'', ''Meta.__getattribute__''))
   \<and> getattr_via_instance class_G ''attr'' =
       ([InvokeGet 7 (Some 43) 42 Returns], Inr (''data descriptor'', ''Meta.__dict__''))
   \<and> getattr_via_instance class_B ''missing'' = ([], Inr (''attribute'', ''Not found''))
   \<and> fst (getattr_via_class class_B ''attr'') = [InvokeGet 2 None 20 Returns]
   \<and> fst (getattr_via_instance class_B ''attr'') = []"
proof -
  let ?C = "class_C (Some (user_method ''__getattribute__'' Returns)) None"
  let ?kA = "\<lparr>cls_name = ''A'', cls_dict = [''attr'' \<mapsto> plain_value 1]\<rparr>"
  let ?kB = "\<lparr>cls_name = ''A'', cls_dict = [''attr'' \<mapsto> get_descr 2 Returns]\<rparr>"
  have none: "\<forall>k\<in>set []. dict_get (cls_dict k) ''attr'' = PyNone"
    by simp
  have a1: "obj_mro class_A = ?kA # [object_klass] \<and> obj_dict class_A = Some (cls_dict ?kA)
      \<and> obj_name class_A = Some (cls_name ?kA) \<and> cls_name ?kA \<noteq> []
      \<and> dict_get (cls_dict ?kA) ''attr'' = PyObj 1 None False False"
    by (simp add: ex_defs dict_get_def)
  have a2: "getattr_via_class class_A ''attr'' = ([], Inr (''attribute'', ''A.__dict__''))"
    by (simp add: ex_defs alg_defs)
  have a3: "\<not> isoverridemethod (attr_setattr (obj_type class_A))
      \<and> \<not> isoverridemethod (attr_getattribute (obj_type class_A))
      \<and> (\<forall>k\<in>set (type_mro (obj_type class_A)). dict_get (cls_dict k) ''attr'' = PyNone)
      \<and> obj_name class_A = Some ''A'' \<and> ''A'' \<noteq> []"
    by (simp add: ex_defs dict_get_def)
  have c1: "isoverridemethod (attr_getattribute (obj_type ?C))"
    by (simp add: ex_defs)
  have c2: "getattr_via_class ?C ''attr'' =
      ([InvokeHook ''__getattribute__'' 41 ''attr'' Returns],
       Inr (''attribute'', ''Meta.__getattribute__''))"
    by (simp add: ex_defs alg_defs)
  have g1: "type_mro (obj_type class_G) = [] @ klass_MetaD # [type_klass, object_klass]
      \<and> dict_get (cls_dict klass_MetaD) ''attr'' = PyObj 7 (Some (\<lambda>a b. Returns)) True False
      \<and> (True \<or> False)"
    by (simp add: ex_defs dict_get_def)
  have g2: "getattr_via_class class_G ''attr'' =
      ([InvokeGet 7 (Some 43) 42 Returns], Inr (''data descriptor'', ''Meta.__dict__''))"
    by (simp add: ex_defs alg_defs)
  have b1: "(\<forall>k\<in>set (obj_mro class_B). dict_get (cls_dict k) ''missing'' = PyNone)
      \<and> obj_dict class_B = Some [''attr'' \<mapsto> get_descr 2 Returns]
      \<and> ''missing'' \<notin> dom [''attr'' \<mapsto> get_descr 2 Returns]"
    by (simp add: ex_defs dict_get_def)
  have b2: "getattr_via_class class_B ''missing'' = ([], Inr (''attribute'', ''Not found''))"
    by (simp add: ex_defs alg_defs)
  have b3: "\<not> isoverridemethod (attr_getattribute (obj_type class_B))
      \<and> (\<forall>k\<in>set (type_mro (obj_type class_B)).
            \<not> isdatadescriptor (dict_get (cls_dict k) ''attr''))
      \<and> obj_mro class_B = ?kB # [object_klass] \<and> obj_dict class_B = Some (cls_dict ?kB)
      \<and> obj_name class_B \<noteq> None
      \<and> dict_get (cls_dict ?kB) ''attr'' = PyObj 2 (Some (\<lambda>a b. Returns)) False False"
    by (simp add: ex_defs dict_get_def isdatadescriptor_def)
  from class_target_reuses_instance_algorithms
         [of class_A "''attr''" "''A''" _ _ _ _ _ _ _ _ ?kA "[object_klass]" 1 False False] a1
  have e1: "getattr_via_class class_A ''attr'' = getattr_via_instance class_A ''attr''"
    by blast
  from class_target_reuses_instance_algorithms [of class_A "''attr''" "''A''"] a3
  have r1': "setattr_via_class class_A ''attr'' = ([], Inr (''attribute'', ''A'' @ ''.__dict__''))"
    by blast
  from class_target_reuses_instance_algorithms [of ?C "''attr''"] c1
  have e2: "getattr_via_class ?C ''attr'' = getattr_via_instance ?C ''attr''"
    by blast
  from class_target_reuses_instance_algorithms
         [of class_G "''attr''" _ "[]" klass_MetaD "[type_klass, object_klass]" 7
            "\<lambda>a b. Returns" True False] g1 none
  have e3: "getattr_via_class class_G ''attr'' = getattr_via_instance class_G ''attr''"
    by blast
  from class_target_reuses_instance_algorithms
         [of class_B "''missing''" _ _ _ _ _ _ _ _ "[''attr'' \<mapsto> get_descr 2 Returns]"] b1
  have e4: "getattr_via_class class_B ''missing'' = getattr_via_instance class_B ''missing''"
    by blast
  from class_target_reuses_instance_algorithms
         [of class_B "''attr''" _ _ _ _ _ _ _ _ _ ?kB "[object_klass]" 2 False False
            "\<lambda>a b. Returns"] b3
  have r5: "fst (getattr_via_class class_B ''attr'') =
        [InvokeGet 2 None (obj_id class_B) ((\<lambda>a b. Returns) None (obj_id class_B))]
      \<and> fst (getattr_via_instance class_B ''attr'') = []"
    by blast
  have id: "obj_id class_B = 20"
    by (simp add: ex_defs)
  from a2 e1 r1' c2 e2 g2 e3 b2 e4 r5 id show ?thesis by simp
qed

text \<open>
  On the class of the second doctest the two read algorithms differ: the class algorithm
  walks \<^verbatim>\<open>A.__mro__\<close> and calls the descriptor's \<^verbatim>\<open>__get__\<close> on \<^verbatim>\<open>(None, A)\<close>, the
  instance algorithm applied to \<^verbatim>\<open>A\<close> reports a plain attribute of its dictionary.
\<close>

theorem class_target_reuses_instance_algorithms_counterexample:
  "getattr_via_class class_B ''attr'' =
     ([InvokeGet 2 None 20 Returns], Inr (''get descriptor'', ''A.__dict__''))
   \<and> getattr_via_instance class_B ''attr'' = ([], Inr (''attribute'', ''A.__dict__''))"
  by (simp add: ex_defs alg_defs)

section \<open>The preconditions of showattr\<close>

text \<open>
  C9, as amended. \<^verbatim>\<open>showattr\<close> fails with an \<^verbatim>\<open>AssertionError\<close>, having called no
  hook, when the target is not new-style; otherwise when the name is not a string;
  otherwise when the method is not one of \<^verbatim>\<open>get\<close>, \<^verbatim>\<open>set\<close>, \<^verbatim>\<open>del\<close>. Otherwise
  it runs the algorithm the dispatch table selects.
\<close>

theorem preconditions_fail_before_any_hook:
  "(\<not> isnewstyle obj \<longrightarrow> showattr obj nm meth = ([], Inl (AssertionError ObjNotNewStyle)))
   \<and> (isnewstyle obj \<longrightarrow>
        showattr obj PyOther meth = ([], Inl (AssertionError NameNotString)))
   \<and> (isnewstyle obj \<and> meth \<noteq> PyStr ''get'' \<and> meth \<noteq> PyStr ''set'' \<and> meth \<noteq> PyStr ''del'' \<longrightarrow>
        showattr obj (PyStr n) meth = ([], Inl (AssertionError MethodNotKnown)))
   \<and> (isnewstyle obj \<and> (m = ''get'' \<or> m = ''set'' \<or> m = ''del'') \<longrightarrow>
        showattr obj (PyStr n) (PyStr m) = propagate (route (obj_isclass obj) m obj n))"
  by (cases meth) (simp_all add: showattr_def)

text \<open>The targets of the example have hooks that would raise if they were called.\<close>

theorem preconditions_fail_before_any_hook_witness:
  "showattr old_style_instance (PyStr ''attr'') (PyStr ''get'') =
     ([], Inl (AssertionError ObjNotNewStyle))
   \<and> showattr (inst_d_hooked (Raises (OtherError ''ValueError''))) PyOther (PyStr ''get'') =
       ([], Inl (AssertionError NameNotString))
   \<and> showattr (inst_d_hooked (Raises (OtherError ''ValueError''))) (PyStr ''attr'') (PyStr ''fetch'') =
       ([], Inl (AssertionError MethodNotKnown))
   \<and> showattr (inst_d_hooked (Raises (OtherError ''ValueError''))) (PyStr ''attr'') PyOther =
       ([], Inl (AssertionError MethodNotKnown))
   \<and> showattr (inst_d_hooked (Raises (OtherError ''ValueError''))) (PyStr ''attr'') (PyStr ''get'') =
       ([InvokeHook ''__getattribute__'' 31 ''attr'' (Raises (OtherError ''ValueError''))],
        Inl (Raised (OtherError ''ValueError'')))"
proof -
  let ?x = "inst_d_hooked (Raises (OtherError ''ValueError''))"
  have old: "\<not> isnewstyle old_style_instance"
    by (simp add: isnewstyle_def ex_defs)
  have new: "isnewstyle ?x"
    by (simp add: isnewstyle_def ex_defs)
  have r: "propagate (route (obj_isclass ?x) ''get'' ?x ''attr'') =
       ([InvokeHook ''__getattribute__'' 31 ''attr'' (Raises (OtherError ''ValueError''))],
        Inl (Raised (OtherError ''ValueError'')))"
    by (simp add: route_def getattr_via_instance_def getattr_via_instance_try_def
        call_override_def ex_defs)
  from preconditions_fail_before_any_hook
         [of old_style_instance "PyStr ''attr''" "PyStr ''get''"] old
  have w1: "showattr old_style_instance (PyStr ''attr'') (PyStr ''get'') =
     ([], Inl (AssertionError ObjNotNewStyle))"
    by blast
  from preconditions_fail_before_any_hook [of ?x _ "PyStr ''get''"] new
  have w2: "showattr ?x PyOther (PyStr ''get'') = ([], Inl (AssertionError NameNotString))"
    by blast
  from preconditions_fail_before_any_hook [of ?x _ "PyStr ''fetch''" "''attr''"] new
  have w3: "showattr ?x (PyStr ''attr'') (PyStr ''fetch'') =
      ([], Inl (AssertionError MethodNotKnown))"
    by simp
  from preconditions_fail_before_any_hook [of ?x _ PyOther "''attr''"] new
  have w4: "showattr ?x (PyStr ''attr'') PyOther = ([], Inl (AssertionError MethodNotKnown))"
    by simp
  from preconditions_fail_before_any_hook [of ?x _ _ "''attr''" "''get''"] new
  have w5: "showattr ?x (PyStr ''attr'') (PyStr ''get'') =
      propagate (route (obj_isclass ?x) ''get'' ?x ''attr'')"
    by simp
  from w1 w2 w3 w4 w5 r show ?thesis by simp
qed

text \<open>
  Any string passes as a name: the empty string and a string with spaces are classified
  like any other name.
\<close>

theorem preconditions_counterexample:
  "isnewstyle inst_a
   \<and> showattr inst_a (PyStr []) (PyStr ''get'') = ([], Inr (''attribute'', ''Not found''))
   \<and> showattr inst_a (PyStr ''not an identifier'') (PyStr ''set'') =
       ([], Inr (''attribute'', ''instance.__dict__''))"
  by (simp add: ex_defs alg_defs)

section \<open>Names bound to None in a class\<close>

text \<open>
  C10, as amended. Every walk over a linearization skips a class that binds the name to
  \<^verbatim>\<open>None\<close> and goes on with the next one, so each of the algorithms gives the same
  result when all such bindings are removed from the dictionaries of
  \<^verbatim>\<open>type(target).__mro__\<close> and \<^verbatim>\<open>target.__mro__\<close>. (The membership test on the target's
  own \<^verbatim>\<open>__dict__\<close> is not a walk and is left out.)
\<close>

theorem none_in_class_dict_is_skipped:
  "getattr_via_instance (drop_none_classes x) nm = getattr_via_instance x nm
   \<and> getattr_via_class (drop_none_classes x) nm = getattr_via_class x nm
   \<and> setattr_via_instance (drop_none_classes x) nm = setattr_via_instance x nm
   \<and> delattr_via_instance (drop_none_classes x) nm = delattr_via_instance x nm
   \<and> setattr_via_class (drop_none_classes x) nm = setattr_via_class x nm
   \<and> delattr_via_class (drop_none_classes x) nm = delattr_via_class x nm
   \<and> (cls_dict c nm = Some PyNone \<longrightarrow>
        mro_lookup (c # cs) nm = mro_lookup cs nm
        \<and> set_walk (c # cs) nm = set_walk cs nm
        \<and> class_walk (c # cs) nm cid = class_walk cs nm cid)"
proof -
  have gi: "getattr_via_instance (drop_none_classes x) nm = getattr_via_instance x nm"
    by (simp add: getattr_via_instance_def instance_try_drop_none except_drop_none)
  have gc: "getattr_via_class (drop_none_classes x) nm = getattr_via_class x nm"
    by (simp add: getattr_via_class_def class_try_drop_none except_drop_none)
  have si: "setattr_via_instance (drop_none_classes x) nm = setattr_via_instance x nm"
    unfolding setattr_via_instance_def hooks_drop_none override_info_drop_none
      set_walk_target_drop_none own_location_drop_none Let_def
    by (rule refl)
  have di: "delattr_via_instance (drop_none_classes x) nm = delattr_via_instance x nm"
    unfolding delattr_via_instance_def hooks_drop_none override_info_drop_none
      set_walk_target_drop_none own_location_drop_none in_own_dict_drop_none Let_def
    by (rule refl)
  have sk: "mro_lookup (c # cs) nm = mro_lookup cs nm
        \<and> set_walk (c # cs) nm = set_walk cs nm
        \<and> class_walk (c # cs) nm cid = class_walk cs nm cid"
    if "cls_dict c nm = Some PyNone"
    using that by (simp add: dict_get_def)
  from gi gc si di sk show ?thesis
    by (simp add: setattr_via_class_def delattr_via_class_def)
qed

theorem none_in_class_dict_is_skipped_witness:
  "cls_dict klass_N ''attr'' = Some PyNone
   \<and> mro_lookup (type_mro (obj_type inst_n)) ''attr'' = Some (data_descr 4 Returns, ''D.__dict__'')
   \<and> set_walk (type_mro (obj_type inst_n)) ''attr'' = Some (''set descriptor'', ''D.__dict__'')
   \<and> class_walk (obj_mro (class_N [''attr'' \<mapsto> PyNone])) ''attr'' 62 = None"
proof -
  have n: "cls_dict klass_N ''attr'' = Some PyNone"
    by (simp add: ex_defs)
  have n': "cls_dict \<lparr>cls_name = ''N'', cls_dict = [''attr'' \<mapsto> PyNone]\<rparr> ''attr'' = Some PyNone"
    by simp
  have m: "type_mro (obj_type inst_n) = klass_N # [klass_D Returns, object_klass]"
    by (simp add: ex_defs)
  have c: "obj_mro (class_N [''attr'' \<mapsto> PyNone]) =
      \<lparr>cls_name = ''N'', cls_dict = [''attr'' \<mapsto> PyNone]\<rparr> # [object_klass]"
    by (simp add: ex_defs)
  have r1: "mro_lookup [klass_D Returns, object_klass] ''attr'' =
      Some (data_descr 4 Returns, ''D.__dict__'')"
    by (simp add: ex_defs dict_get_def)
  have r2: "set_walk [klass_D Returns, object_klass] ''attr'' =
      Some (''set descriptor'', ''D.__dict__'')"
    by (simp add: ex_defs dict_get_def)
  have r3: "class_walk [object_klass] ''attr'' 62 = None"
    by (simp add: ex_defs dict_get_def)
  from none_in_class_dict_is_skipped [of _ "''attr''" klass_N "[klass_D Returns, object_klass]"] n
  have s1: "mro_lookup (klass_N # [klass_D Returns, object_klass]) ''attr'' =
        mro_lookup [klass_D Returns, object_klass] ''attr''"
    and s2: "set_walk (klass_N # [klass_D Returns, object_klass]) ''attr'' =
        set_walk [klass_D Returns, object_klass] ''attr''"
    by blast+
  from none_in_class_dict_is_skipped
         [of _ "''attr''" "\<lparr>cls_name = ''N'', cls_dict = [''attr'' \<mapsto> PyNone]\<rparr>"
            "[object_klass]" 62] n'
  have s3: "class_walk (\<lparr>cls_name = ''N'', cls_dict = [''attr'' \<mapsto> PyNone]\<rparr> # [object_klass])
        ''attr'' 62 = class_walk [object_klass] ''attr'' 62"
    by blast
  from n m c r1 r2 r3 s1 s2 s3 show ?thesis by simp
qed

text \<open>
  Deleting through a class tests membership in the class's own dictionary, where a name
  bound to \<^verbatim>\<open>None\<close> counts: it is reported at the class's dictionary, and a missing
  name at \<^verbatim>\<open>Not found\<close>.
\<close>

theorem none_in_class_dict_counterexample:
  "cls_dict (hd (obj_mro (class_N [''attr'' \<mapsto> PyNone]))) ''attr'' = Some PyNone
   \<and> delattr_via_class (class_N [''attr'' \<mapsto> PyNone]) ''attr'' =
       ([], Inr (''attribute'', ''N.__dict__''))
   \<and> delattr_via_class (class_N Map.empty) ''attr'' = ([], Inr (''attribute'', ''Not found''))
   \<and> showattr (class_N [''attr'' \<mapsto> PyNone]) (PyStr ''attr'') (PyStr ''del'') =
       ([], Inr (''attribute'', ''N.__dict__''))"
  by (simp add: ex_defs alg_defs)

end
